theory Spec2Isabelle
  imports Complex_Main "HOL-Library.Word"
begin

section \<open>The Free-Form Memory daemon skeleton (memqosd\_skeleton.go)\<close>

text \<open>
  The daemon is a Go HTTP server with one handler. Its request and reply structs
  are records; Go's \<open>uint64\<close> and \<open>uint32\<close> are words.
\<close>

record FFMAllocRequest =
  Bytes :: "64 word"
  LatencyClass :: string
  BandwidthFloorGBs :: "32 word"
  Persistence :: string
  Shareable :: bool
  SecurityDomain :: string

record FFMAllocReply =
  Handle :: string
  FDs :: "string list"
  PolicyLeaseTTLsec :: int

text \<open>
  What a handler writes to its \<open>http.ResponseWriter\<close>: the status code, the
  Content-Type header and the body. \<open>http.Error\<close> writes a plain-text body;
  \<open>json.NewEncoder(w).Encode(reply)\<close> writes the reply struct, with status 200
  since the handler never calls \<open>WriteHeader\<close>.
\<close>

datatype http_body = ErrorText string | ReplyJSON FFMAllocReply

record http_response =
  StatusCode :: nat
  ContentType :: string
  Body :: http_body

text \<open>
  \<open>json.NewDecoder(r.Body).Decode(&req)\<close> belongs to the standard library. The
  handler only looks at its outcome, so the outcome is the handler's argument:
  \<open>Inl msg\<close> when decoding fails with the error text \<open>msg\<close>, \<open>Inr req\<close> when the
  body decodes to \<open>req\<close>.
\<close>

definition ffmAlloc :: "string + FFMAllocRequest \<Rightarrow> http_response" where
  "ffmAlloc decoded =
     (case decoded of
        Inl err \<Rightarrow>
          \<lparr>StatusCode = 400, ContentType = ''text/plain; charset=utf-8'', Body = ErrorText err\<rparr>
      | Inr req \<Rightarrow>
          (let reply = \<lparr>Handle = ''ffm-9c2e'', FDs = [''/proc/self/fd/37''],
                         PolicyLeaseTTLsec = 3600\<rparr>
           in \<lparr>StatusCode = 200, ContentType = ''application/json'', Body = ReplyJSON reply\<rparr>))"

text \<open>
  \<open>main\<close> registers \<open>ffmAlloc\<close> under the pattern \<open>/v1/ffm/alloc\<close> on the default
  mux and nothing else; the three other routes are TODO comments. A pattern without
  a trailing slash matches exactly that path, for every method. \<open>serve\<close> is the answer
  to a request whose path (\<open>r.URL.Path\<close>) is \<open>path\<close>, once the mux has passed the
  request on to a handler: the registered handler for the registered path,
  \<open>http.NotFound\<close> for any other. The daemon has no package-level variable: no
  request leaves anything behind for the next one.
\<close>

definition serve :: "string \<Rightarrow> string + FFMAllocRequest \<Rightarrow> http_response" where
  "serve path decoded =
     (if path = ''/v1/ffm/alloc'' then ffmAlloc decoded
      else \<lparr>StatusCode = 404, ContentType = ''text/plain; charset=utf-8'',
             Body = ErrorText ''404 page not found''\<rparr>)"

text \<open>
  Before it looks for a handler the mux cleans the path with \<open>cleanPath\<close> of
  \<open>net/http\<close>, and a request whose path differs from its cleaned form is not passed
  on to any handler: it is answered with a redirect to the cleaned path. \<open>cleanPath\<close>
  puts a slash in front if there is none, applies \<open>path.Clean\<close> and puts a
  trailing slash back. On a rooted path \<open>path.Clean\<close> drops empty elements and
  \<open>.\<close> elements, and drops each \<open>..\<close> element together with the element before
  it, or alone at the root. The statements below about paths other than
  \<open>/v1/ffm/alloc\<close> are about paths that are their own cleaned form.
\<close>

fun splitSlash :: "string \<Rightarrow> string list" where
  "splitSlash [] = [[]]"
| "splitSlash (c # cs) =
     (if c = CHR ''/'' then [] # splitSlash cs
      else (case splitSlash cs of [] \<Rightarrow> [[c]] | e # es \<Rightarrow> (c # e) # es))"

fun cleanElements :: "string list \<Rightarrow> string list \<Rightarrow> string list" where
  "cleanElements kept [] = rev kept"
| "cleanElements kept (e # es) =
     (if e = [] \<or> e = ''.'' then cleanElements kept es
      else if e = ''..'' then cleanElements (tl kept) es
      else cleanElements (e # kept) es)"

fun joinSlash :: "string list \<Rightarrow> string" where
  "joinSlash [] = []"
| "joinSlash [e] = e"
| "joinSlash (e # es) = e @ ''/'' @ joinSlash es"

definition cleanPath :: "string \<Rightarrow> string" where
  "cleanPath p =
     (if p = [] then ''/''
      else
        (let p1 = (if hd p \<noteq> CHR ''/'' then CHR ''/'' # p else p);
             np = ''/'' @ joinSlash (cleanElements [] (splitSlash (tl p1)))
         in if last p1 = CHR ''/'' \<and> np \<noteq> ''/'' then np @ ''/'' else np))"

section \<open>The HELIOPASS simulator\<close>

text \<open>
  Go's \<open>float64\<close> is modelled by \<open>real\<close>: rounding and overflow are not
  represented. Where Go's arithmetic produces a NaN from finite operands (a division
  of zero by zero) the model says so with \<open>None\<close>. Go's \<open>int\<close> is \<open>int\<close>.
\<close>

record HELIOPASSSimulator =
  BaseTemperature :: real
  BaseHumidity :: real
  BaseVibration :: real
  BaseEMI :: real
  DriftRate :: real
  NoiseLevel :: real
  ConvergenceRate :: real
  MaxIterations :: int

record SimulationRequest =
  CorridorID :: string
  TargetBER :: real
  AmbientProfile :: string
  LambdaCount :: int
  InitialBER :: real
  InitialEyeMargin :: real
  Temperature :: real
  Duration :: int

record TemperaturePoint =
  Time :: real
  Temperature :: real

record BERPoint =
  Time :: real
  BER :: real

record EyeMarginPoint =
  Time :: real
  EyeMargin :: real

record SimulationResponse =
  CorridorID :: string
  Status :: string
  Converged :: bool
  FinalBER :: real
  FinalEyeMargin :: real
  ConvergenceTime :: real
  Iterations :: int
  BiasVoltages :: "real list"
  LambdaShifts :: "real list"
  LaserPowerAdjust :: "real list"
  PowerSavings :: "real option"
  TemperatureProfile :: "TemperaturePoint list"
  BERProfile :: "BERPoint list"
  EyeMarginProfile :: "EyeMarginPoint list"
  Error :: string

record AmbientProfile =
  Name :: string
  Temperature :: real
  Humidity :: real
  VibrationRMS :: real
  EMINoise :: real
  DriftRate :: real
  StabilityClass :: string
  NoiseLevel :: real

definition NewHELIOPASSSimulator :: HELIOPASSSimulator where
  "NewHELIOPASSSimulator =
     \<lparr>BaseTemperature = 22.0, BaseHumidity = 45.0, BaseVibration = 0.1, BaseEMI = -80.0,
      HELIOPASSSimulator.DriftRate = 0.001, HELIOPASSSimulator.NoiseLevel = 0.1,
      ConvergenceRate = 0.8, MaxIterations = 50\<rparr>"

definition GetAmbientProfiles :: "HELIOPASSSimulator \<Rightarrow> (string \<rightharpoonup> AmbientProfile)" where
  "GetAmbientProfiles h = map_of
     [(''lab_default'',
        \<lparr>Name = ''Laboratory Default'', Temperature = 22.0, Humidity = 45.0,
         VibrationRMS = 0.1, EMINoise = -80.0, DriftRate = 0.001,
         StabilityClass = ''excellent'', NoiseLevel = 0.05\<rparr>),
      (''field_noise_low'',
        \<lparr>Name = ''Field Low Noise'', Temperature = 25.0, Humidity = 60.0,
         VibrationRMS = 1.0, EMINoise = -70.0, DriftRate = 0.01,
         StabilityClass = ''good'', NoiseLevel = 0.1\<rparr>),
      (''field_noise_high'',
        \<lparr>Name = ''Field High Noise'', Temperature = 30.0, Humidity = 80.0,
         VibrationRMS = 5.0, EMINoise = -60.0, DriftRate = 0.1,
         StabilityClass = ''fair'', NoiseLevel = 0.2\<rparr>),
      (''datacenter'',
        \<lparr>Name = ''Data Center'', Temperature = 24.0, Humidity = 50.0,
         VibrationRMS = 0.5, EMINoise = -75.0, DriftRate = 0.005,
         StabilityClass = ''excellent'', NoiseLevel = 0.08\<rparr>),
      (''space_sim'',
        \<lparr>Name = ''Space Simulation'', Temperature = -50.0, Humidity = 0.0,
         VibrationRMS = 0.01, EMINoise = -90.0, DriftRate = 0.0001,
         StabilityClass = ''excellent'', NoiseLevel = 0.01\<rparr>)]"

subsection \<open>The random source\<close>

text \<open>
  \<open>rand.Float64()\<close> reads the process-wide generator, which \<open>main\<close> seeds from
  the clock. The generator's output is a sequence of numbers in [0, 1); a call returns
  the number at the current position and advances the position. The sequence is a
  parameter \<open>rng\<close> of every function that draws, and the position is threaded
  through as state.
\<close>

type_synonym rand_source = "nat \<Rightarrow> real"

definition Float64 :: "rand_source \<Rightarrow> nat \<Rightarrow> real \<times> nat" where
  "Float64 rng k = (rng k, Suc k)"

subsection \<open>Helper methods\<close>

definition simulateTemperatureNoise ::
  "HELIOPASSSimulator \<Rightarrow> rand_source \<Rightarrow> real \<Rightarrow> AmbientProfile \<Rightarrow> nat \<Rightarrow> real \<times> nat" where
  "simulateTemperatureNoise h rng time profile k =
     (let drift = sin (time * 0.1) * 0.5;
          (r, k1) = Float64 rng k;
          noise = (r - 0.5) * NoiseLevel profile * 2
      in (drift + noise, k1))"

definition calculateImprovement ::
  "HELIOPASSSimulator \<Rightarrow> rand_source \<Rightarrow> int \<Rightarrow> real \<Rightarrow> nat \<Rightarrow> real \<times> nat" where
  "calculateImprovement h rng iteration noiseLevel k =
     (let baseImprovement = exp (- real_of_int iteration * ConvergenceRate h);
          (r, k1) = Float64 rng k;
          noise = (r - 0.5) * noiseLevel
      in (baseImprovement + noise, k1))"

definition calculateBERNoise ::
  "HELIOPASSSimulator \<Rightarrow> rand_source \<Rightarrow> real \<Rightarrow> AmbientProfile \<Rightarrow> nat \<Rightarrow> real \<times> nat" where
  "calculateBERNoise h rng time profile k =
     (let baseNoise = NoiseLevel profile * (1 / 10 ^ 12);
          timeNoise = sin (time * 0.5) * baseNoise * 0.5;
          (r, k1) = Float64 rng k;
          randomNoise = (r - 0.5) * baseNoise
      in (timeNoise + randomNoise, k1))"

definition calculateEyeImprovement ::
  "HELIOPASSSimulator \<Rightarrow> rand_source \<Rightarrow> int \<Rightarrow> real \<Rightarrow> nat \<Rightarrow> real \<times> nat" where
  "calculateEyeImprovement h rng iteration noiseLevel k =
     (let baseImprovement = exp (- real_of_int iteration * ConvergenceRate h * 0.8);
          (r, k1) = Float64 rng k;
          noise = (r - 0.5) * noiseLevel * 0.1
      in (baseImprovement + noise, k1))"

definition calculateEyeNoise ::
  "HELIOPASSSimulator \<Rightarrow> rand_source \<Rightarrow> real \<Rightarrow> AmbientProfile \<Rightarrow> nat \<Rightarrow> real \<times> nat" where
  "calculateEyeNoise h rng time profile k =
     (let baseNoise = NoiseLevel profile * 0.01;
          timeNoise = sin (time * 0.3) * baseNoise * 0.5;
          (r, k1) = Float64 rng k;
          randomNoise = (r - 0.5) * baseNoise
      in (timeNoise + randomNoise, k1))"

text \<open>
  The three update methods walk a slice in index order and overwrite each element in
  place, drawing once per element. The model returns the new slice and the new
  position of the generator.
\<close>

fun updateBiasVoltages ::
  "HELIOPASSSimulator \<Rightarrow> rand_source \<Rightarrow> real list \<Rightarrow> real \<Rightarrow> AmbientProfile \<Rightarrow> nat
     \<Rightarrow> real list \<times> nat" where
  "updateBiasVoltages h rng [] time profile k = ([], k)"
| "updateBiasVoltages h rng (v # voltages) time profile k =
     (let tempFactor = 1.0 + (Temperature profile - BaseTemperature h) * 0.001;
          driftFactor = 1.0 + sin (time * 0.2) * DriftRate profile * 0.1;
          (r, k1) = Float64 rng k;
          randomAdjust = (r - 0.5) * 0.01;
          v1 = v * tempFactor * driftFactor + randomAdjust;
          v2 = max 0.8 (min 1.5 v1);
          (rest, k2) = updateBiasVoltages h rng voltages time profile k1
      in (v2 # rest, k2))"

fun updateLambdaShifts ::
  "HELIOPASSSimulator \<Rightarrow> rand_source \<Rightarrow> real list \<Rightarrow> real \<Rightarrow> AmbientProfile \<Rightarrow> nat
     \<Rightarrow> real list \<times> nat" where
  "updateLambdaShifts h rng [] time profile k = ([], k)"
| "updateLambdaShifts h rng (s # shifts) time profile k =
     (let drift = sin (time * 0.15) * DriftRate profile * 0.01;
          (r, k1) = Float64 rng k;
          randomAdjust = (r - 0.5) * 0.001;
          s1 = s + drift + randomAdjust;
          s2 = max (- 0.1) (min 0.1 s1);
          (rest, k2) = updateLambdaShifts h rng shifts time profile k1
      in (s2 # rest, k2))"

fun updateLaserPower ::
  "HELIOPASSSimulator \<Rightarrow> rand_source \<Rightarrow> real list \<Rightarrow> real \<Rightarrow> AmbientProfile \<Rightarrow> nat
     \<Rightarrow> real list \<times> nat" where
  "updateLaserPower h rng [] time profile k = ([], k)"
| "updateLaserPower h rng (p # powerAdjust) time profile k =
     (let tempFactor = 1.0 + (Temperature profile - BaseTemperature h) * 0.0005;
          (r, k1) = Float64 rng k;
          randomAdjust = (r - 0.5) * 0.1;
          p1 = p * tempFactor + randomAdjust;
          p2 = max (- 2.0) (min 2.0 p1);
          (rest, k2) = updateLaserPower h rng powerAdjust time profile k1
      in (p2 # rest, k2))"

text \<open>
  \<open>calculatePowerSavings\<close> divides each sum by the length of its slice. For an empty
  slice that is 0.0 / 0.0, a NaN in Go, which \<open>math.Min\<close> and \<open>math.Max\<close> pass
  on: the result is \<open>None\<close> then.
\<close>

definition calculatePowerSavings ::
  "HELIOPASSSimulator \<Rightarrow> real list \<Rightarrow> real list \<Rightarrow> real option" where
  "calculatePowerSavings h biasVoltages laserPowerAdjust =
     (if biasVoltages = [] \<or> laserPowerAdjust = [] then None
      else
        (let voltageSavings = (\<Sum>v\<leftarrow>biasVoltages. (1.2 - v) * 10.0)
                                / real (length biasVoltages);
             laserSavings = (\<Sum>p\<leftarrow>laserPowerAdjust. if p < 0 then \<bar>p\<bar> * 5.0 else 0)
                              / real (length laserPowerAdjust)
         in Some (max 0 (min 20 (voltageSavings + laserSavings)))))"

subsection \<open>Simulate\<close>

text \<open>
  The local variables that \<open>Simulate\<close> carries around its loop, with the position
  of the random generator.
\<close>

record sim_state =
  currentBER :: real
  currentEyeMargin :: real
  biasVoltages :: "real list"
  lambdaShifts :: "real list"
  laserPowerAdjust :: "real list"
  temperatureProfile :: "TemperaturePoint list"
  berProfile :: "BERPoint list"
  eyeMarginProfile :: "EyeMarginPoint list"
  converged :: bool
  iterations :: int
  position :: nat

text \<open>
  \<open>Simulate\<close> ends in one of three ways: it returns the error made by
  \<open>fmt.Errorf\<close>, it returns a response, or it panics in \<open>make([]float64, n)\<close>
  (``makeslice: len out of range'').
\<close>

datatype sim_error = ErrorString string | MakeslicePanic

text \<open>
  \<open>make([]float64, n)\<close> compiles to the runtime's \<open>makeslice\<close>, which panics when
  \<open>n\<close> is negative or when the 8 bytes of each of the \<open>n\<close> elements add up to more
  than the runtime constant \<open>maxAlloc\<close>. On the 64-bit platforms with 48-bit heap
  addresses (linux/amd64, linux/arm64) \<open>maxAlloc\<close> is \<open>2 ^ 48\<close>. Below that limit the
  allocation can still exhaust the memory of the machine, which stops the whole
  process. The model has no such outcome: its response for a large lane count is that
  of a machine with memory enough. The theorems about responses are therefore stated
  for every response that is returned, and the only responses said to exist are those
  of the example requests, with one and with eight lanes.
\<close>

definition maxAlloc :: int where
  "maxAlloc = 2 ^ 48"

definition makeslicePanics :: "int \<Rightarrow> bool" where
  "makeslicePanics n = (n < 0 \<or> maxAlloc < 8 * n)"

text \<open>The block ``Set defaults'' of \<open>Simulate\<close>: each zero field is replaced.\<close>

definition setDefaults :: "AmbientProfile \<Rightarrow> SimulationRequest \<Rightarrow> SimulationRequest" where
  "setDefaults profile req =
     (let req1 = (if LambdaCount req = 0 then req\<lparr>LambdaCount := 8\<rparr> else req);
          req2 = (if InitialBER req1 = 0 then req1\<lparr>InitialBER := 1 / 10 ^ 9\<rparr> else req1);
          req3 = (if InitialEyeMargin req2 = 0 then req2\<lparr>InitialEyeMargin := 0.5\<rparr> else req2);
          req4 = (if SimulationRequest.Temperature req3 = 0
                  then req3\<lparr>SimulationRequest.Temperature := Temperature profile\<rparr> else req3);
          req5 = (if Duration req4 = 0 then req4\<lparr>Duration := 60\<rparr> else req4)
      in req5)"

text \<open>
  The loop \<open>for i := range biasVoltages\<close> that fills the three slices of length
  \<open>n\<close>: three draws per lane, in the order bias, wavelength, power.
\<close>

fun initLanes :: "rand_source \<Rightarrow> nat \<Rightarrow> nat \<Rightarrow> real list \<times> real list \<times> real list \<times> nat" where
  "initLanes rng 0 k = ([], [], [], k)"
| "initLanes rng (Suc n) k =
     (let (r1, k1) = Float64 rng k;
          b = 1.2 + (r1 - 0.5) * 0.2;
          (r2, k2) = Float64 rng k1;
          l = (r2 - 0.5) * 0.02;
          (r3, k3) = Float64 rng k2;
          p = (r3 - 0.5) * 0.5;
          (bs, ls, ps, k4) = initLanes rng n k3
      in (b # bs, l # ls, p # ps, k4))"

text \<open>One pass through the body of the loop ``Run simulation'', for loop index \<open>i\<close>.\<close>

definition iteration ::
  "HELIOPASSSimulator \<Rightarrow> rand_source \<Rightarrow> AmbientProfile \<Rightarrow> real \<Rightarrow> real \<Rightarrow> int
     \<Rightarrow> sim_state \<Rightarrow> sim_state" where
  "iteration h rng profile targetBER dt i st =
     (let time = real_of_int i * dt;
          (tnoise, k1) = simulateTemperatureNoise h rng time profile (position st);
          temperature = Temperature profile + tnoise;
          (improvement, k2) = calculateImprovement h rng i (NoiseLevel profile) k1;
          ber1 = targetBER + (currentBER st - targetBER) * improvement;
          (berNoise, k3) = calculateBERNoise h rng time profile k2;
          ber2 = max (ber1 + berNoise) (1 / 10 ^ 15);
          (eyeImprovement, k4) = calculateEyeImprovement h rng i (NoiseLevel profile) k3;
          eye1 = 0.8 + (currentEyeMargin st - 0.8) * eyeImprovement;
          (eyeNoise, k5) = calculateEyeNoise h rng time profile k4;
          eye2 = max 0.1 (min 1.5 (eye1 + eyeNoise));
          (bias, k6) = updateBiasVoltages h rng (biasVoltages st) time profile k5;
          (shifts, k7) = updateLambdaShifts h rng (lambdaShifts st) time profile k6;
          (power, k8) = updateLaserPower h rng (laserPowerAdjust st) time profile k7
      in \<lparr>currentBER = ber2,
          currentEyeMargin = eye2,
          biasVoltages = bias,
          lambdaShifts = shifts,
          laserPowerAdjust = power,
          temperatureProfile = temperatureProfile st @
            [\<lparr>TemperaturePoint.Time = time, TemperaturePoint.Temperature = temperature\<rparr>],
          berProfile = berProfile st @ [\<lparr>BERPoint.Time = time, BER = ber2\<rparr>],
          eyeMarginProfile = eyeMarginProfile st @
            [\<lparr>EyeMarginPoint.Time = time, EyeMargin = eye2\<rparr>],
          converged = (ber2 \<le> targetBER * 1.1 \<and> eye2 \<ge> 0.7),
          iterations = iterations st + 1,
          position = k8\<rparr>)"

text \<open>
  The loop \<open>for i := 0; i < h.MaxIterations; i++\<close>, entered at index \<open>i\<close>: the
  body runs, and the loop is left by \<open>break\<close> when the convergence check passes.
\<close>

function runSimulation ::
  "HELIOPASSSimulator \<Rightarrow> rand_source \<Rightarrow> AmbientProfile \<Rightarrow> real \<Rightarrow> real \<Rightarrow> int
     \<Rightarrow> sim_state \<Rightarrow> sim_state" where
  "runSimulation h rng profile targetBER dt i st =
     (if i < MaxIterations h
      then (let st' = iteration h rng profile targetBER dt i st
            in if converged st' then st'
               else runSimulation h rng profile targetBER dt (i + 1) st')
      else st)"
  by pat_completeness auto
termination
  by (relation "measure (\<lambda>(h, rng, profile, targetBER, dt, i, st). nat (MaxIterations h - i))")
     auto

declare runSimulation.simps [simp del]

definition Simulate ::
  "HELIOPASSSimulator \<Rightarrow> rand_source \<Rightarrow> nat \<Rightarrow> SimulationRequest
     \<Rightarrow> (sim_error + SimulationResponse) \<times> nat" where
  "Simulate h rng k req0 =
     (case GetAmbientProfiles h (AmbientProfile req0) of
        None \<Rightarrow> (Inl (ErrorString (''unknown ambient profile: '' @ AmbientProfile req0)), k)
      | Some profile \<Rightarrow>
          (let req = setDefaults profile req0 in
           if makeslicePanics (LambdaCount req) then (Inl MakeslicePanic, k)
           else
             (let (bias0, shifts0, power0, k1) = initLanes rng (nat (LambdaCount req)) k;
                  dt = real_of_int (Duration req) / real_of_int (MaxIterations h);
                  st0 = \<lparr>currentBER = InitialBER req,
                         currentEyeMargin = InitialEyeMargin req,
                         biasVoltages = bias0,
                         lambdaShifts = shifts0,
                         laserPowerAdjust = power0,
                         temperatureProfile = [],
                         berProfile = [],
                         eyeMarginProfile = [],
                         converged = False,
                         iterations = 0,
                         position = k1\<rparr>;
                  st = runSimulation h rng profile (TargetBER req) dt 0 st0;
                  convergenceTime = real_of_int (iterations st) * dt;
                  powerSavings = calculatePowerSavings h (biasVoltages st) (laserPowerAdjust st);
                  status = (if \<not> converged st then ''partial_convergence'' else ''converged'')
              in (Inr \<lparr>CorridorID = SimulationRequest.CorridorID req,
                        Status = status,
                        Converged = converged st,
                        FinalBER = currentBER st,
                        FinalEyeMargin = currentEyeMargin st,
                        ConvergenceTime = convergenceTime,
                        Iterations = iterations st,
                        BiasVoltages = biasVoltages st,
                        LambdaShifts = lambdaShifts st,
                        LaserPowerAdjust = laserPowerAdjust st,
                        PowerSavings = powerSavings,
                        TemperatureProfile = temperatureProfile st,
                        BERProfile = berProfile st,
                        EyeMarginProfile = eyeMarginProfile st,
                        Error = []\<rparr>,
                  position st))))"

section \<open>The loop without its exit\<close>

text \<open>
  \<open>passes h rng profile targetBER dt i n st\<close> is the state after the \<open>n\<close> loop passes
  with indices \<open>i\<close>, \<open>i + 1\<close> and so on, taken one after the other with no
  convergence check. It is used to describe runs of \<open>runSimulation\<close> in which no pass converges.
\<close>

fun passes ::
  "HELIOPASSSimulator \<Rightarrow> rand_source \<Rightarrow> AmbientProfile \<Rightarrow> real \<Rightarrow> real \<Rightarrow> int \<Rightarrow> nat
     \<Rightarrow> sim_state \<Rightarrow> sim_state" where
  "passes h rng profile targetBER dt i 0 st = st"
| "passes h rng profile targetBER dt i (Suc n) st =
     passes h rng profile targetBER dt (i + 1) n (iteration h rng profile targetBER dt i st)"

section \<open>Example inputs\<close>

text \<open>
  The request that the JSON body
  \<^verbatim>\<open>{"corridor_id": "cor-1", "target_ber": 1e-12, "ambient_profile": "lab_default"}\<close>
  decodes to: every absent field is zero.
\<close>

definition lab_request :: SimulationRequest where
  "lab_request =
     \<lparr>SimulationRequest.CorridorID = ''cor-1'', TargetBER = 1 / 10 ^ 12,
      AmbientProfile = ''lab_default'', LambdaCount = 0, InitialBER = 0,
      InitialEyeMargin = 0, SimulationRequest.Temperature = 0, Duration = 0\<rparr>"

text \<open>The same request with \<^verbatim>\<open>"lambda_count": -1\<close>.\<close>

definition negative_lanes_request :: SimulationRequest where
  "negative_lanes_request = lab_request\<lparr>LambdaCount := - 1\<rparr>"

text \<open>
  A one-lane request that starts at its target: \<^verbatim>\<open>"initial_ber": 1e-12\<close> and
  \<^verbatim>\<open>"initial_eye_margin": 0.8\<close>.
\<close>

definition quick_request :: SimulationRequest where
  "quick_request =
     \<lparr>SimulationRequest.CorridorID = ''cor-1'', TargetBER = 1 / 10 ^ 12,
      AmbientProfile = ''lab_default'', LambdaCount = 1, InitialBER = 1 / 10 ^ 12,
      InitialEyeMargin = 0.8, SimulationRequest.Temperature = 0, Duration = 0\<rparr>"

text \<open>
  A one-lane request without \<open>target_ber\<close> (so the target is 0), in the noisiest
  profile, over one second:
  \<^verbatim>\<open>{"corridor_id": "cor-1", "ambient_profile": "field_noise_high", "lambda_count": 1, "duration_seconds": 1}\<close>.
\<close>

definition stalled_request :: SimulationRequest where
  "stalled_request =
     \<lparr>SimulationRequest.CorridorID = ''cor-1'', TargetBER = 0,
      AmbientProfile = ''field_noise_high'', LambdaCount = 1, InitialBER = 0,
      InitialEyeMargin = 0, SimulationRequest.Temperature = 0, Duration = 1\<rparr>"

text \<open>
  Three outputs of the random generator: the constant 1/2; 1/2 for the first eleven
  draws and 1/4 afterwards; and 0 everywhere but 3/4 at draw 397. A call with one lane
  consumes three draws for the initial lane values and then eight per loop pass: one
  each for the temperature noise, the BER improvement, the BER noise, the eye
  improvement and the eye noise, and one per lane in each of the three update methods.
  A call that converges in its first pass therefore consumes eleven draws; and in a
  call started at draw 0 the pass with loop index 49 starts at draw 395 and takes its
  BER noise from draw 397.
\<close>

definition steady_source :: rand_source where
  "steady_source n = 1 / 2"

definition two_level_source :: rand_source where
  "two_level_source n = (if n < 11 then 1 / 2 else 1 / 4)"

definition spike_source :: rand_source where
  "spike_source n = (if n = 397 then 3 / 4 else 0)"

text \<open>
  Scenario A of the specification: two allocation requests of 16 GB in tier T0, with
  bandwidth floors of 500 and 600 GB/s.
\<close>

definition scenario_A_first :: FFMAllocRequest where
  "scenario_A_first =
     \<lparr>Bytes = 17179869184, LatencyClass = ''T0'', BandwidthFloorGBs = 500,
      Persistence = ''none'', Shareable = False, SecurityDomain = ''tenantA''\<rparr>"

definition scenario_A_second :: FFMAllocRequest where
  "scenario_A_second = scenario_A_first\<lparr>BandwidthFloorGBs := 600\<rparr>"

text \<open>The reply that \<open>ffmAlloc\<close> builds, as the response it is written into.\<close>

definition granted :: http_response where
  "granted =
     \<lparr>StatusCode = 200, ContentType = ''application/json'',
      Body = ReplyJSON \<lparr>Handle = ''ffm-9c2e'', FDs = [''/proc/self/fd/37''],
                         PolicyLeaseTTLsec = 3600\<rparr>\<rparr>"

section \<open>Properties of the simulator\<close>

lemma clamp_bounds: "(lo::real) \<le> hi \<Longrightarrow> lo \<le> max lo (min hi x) \<and> max lo (min hi x) \<le> hi"
  by (simp add: max_def min_def)

lemma updateBiasVoltages_clamped:
  "updateBiasVoltages h rng vs t p k = (vs', k') \<Longrightarrow> v \<in> set vs' \<Longrightarrow> 0.8 \<le> v \<and> v \<le> 1.5"
proof (induction vs arbitrary: k vs' k')
  case Nil
  then show ?case by simp
next
  case (Cons a vs)
  from Cons.prems(1) obtain e rest k2 where
    shape: "vs' = max 0.8 (min 1.5 e) # rest" and
    rest: "updateBiasVoltages h rng vs t p (Suc k) = (rest, k2)"
    by (auto simp: Let_def Float64_def split: prod.splits)
  have "0.8 \<le> max 0.8 (min 1.5 e) \<and> max 0.8 (min 1.5 e) \<le> 1.5"
    by (rule clamp_bounds) simp
  with Cons.IH [OF rest] Cons.prems(2) shape show ?case
    by auto
qed

lemma updateLambdaShifts_clamped:
  "updateLambdaShifts h rng vs t p k = (vs', k') \<Longrightarrow> v \<in> set vs' \<Longrightarrow> - 0.1 \<le> v \<and> v \<le> 0.1"
proof (induction vs arbitrary: k vs' k')
  case Nil
  then show ?case by simp
next
  case (Cons a vs)
  from Cons.prems(1) obtain e rest k2 where
    shape: "vs' = max (- 0.1) (min 0.1 e) # rest" and
    rest: "updateLambdaShifts h rng vs t p (Suc k) = (rest, k2)"
    by (auto simp: Let_def Float64_def split: prod.splits)
  have "- 0.1 \<le> max (- 0.1) (min 0.1 e) \<and> max (- 0.1) (min 0.1 e) \<le> 0.1"
    by (rule clamp_bounds) simp
  with Cons.IH [OF rest] Cons.prems(2) shape show ?case
    by auto
qed

lemma updateLaserPower_clamped:
  "updateLaserPower h rng vs t p k = (vs', k') \<Longrightarrow> v \<in> set vs' \<Longrightarrow> - 2 \<le> v \<and> v \<le> 2"
proof (induction vs arbitrary: k vs' k')
  case Nil
  then show ?case by simp
next
  case (Cons a vs)
  from Cons.prems(1) obtain e rest k2 where
    shape: "vs' = max (- 2) (min 2 e) # rest" and
    rest: "updateLaserPower h rng vs t p (Suc k) = (rest, k2)"
    by (auto simp: Let_def Float64_def split: prod.splits)
  have "- 2 \<le> max (- 2) (min 2 e) \<and> max (- 2) (min 2 e) \<le> 2"
    by (rule clamp_bounds) simp
  with Cons.IH [OF rest] Cons.prems(2) shape show ?case
    by auto
qed

lemma iteration_bias_clamped:
  "v \<in> set (biasVoltages (iteration h rng profile targetBER dt i st)) \<Longrightarrow> 0.8 \<le> v \<and> v \<le> 1.5"
  by (auto simp: iteration_def Let_def split: prod.splits dest: updateBiasVoltages_clamped)

lemma iteration_shift_clamped:
  "v \<in> set (lambdaShifts (iteration h rng profile targetBER dt i st)) \<Longrightarrow> - 0.1 \<le> v \<and> v \<le> 0.1"
  by (auto simp: iteration_def Let_def split: prod.splits dest: updateLambdaShifts_clamped)

lemma iteration_power_clamped:
  "v \<in> set (laserPowerAdjust (iteration h rng profile targetBER dt i st)) \<Longrightarrow> - 2 \<le> v \<and> v \<le> 2"
  by (auto simp: iteration_def Let_def split: prod.splits dest: updateLaserPower_clamped)


lemma runSimulation_shape:
  "i < MaxIterations h \<Longrightarrow>
   \<exists>j st'. i \<le> j \<and> j < MaxIterations h \<and>
     iterations st' = iterations st + (j - i) \<and>
     runSimulation h rng p T dt i st = iteration h rng p T dt j st' \<and>
     (converged (iteration h rng p T dt j st') \<or> j + 1 = MaxIterations h)"
proof (induction h rng p T dt i st rule: runSimulation.induct)
  case (1 h rng p T dt i st)
  let ?st' = "iteration h rng p T dt i st"
  show ?case
  proof (cases "converged ?st'")
    case True
    with "1.prems" have "runSimulation h rng p T dt i st = ?st'"
      by (simp add: runSimulation.simps [of h rng p T dt i st])
    with True "1.prems" show ?thesis
      by (intro exI [of _ i] exI [of _ st]) simp
  next
    case False
    with "1.prems" have unfold:
      "runSimulation h rng p T dt i st = runSimulation h rng p T dt (i + 1) ?st'"
      by (simp add: runSimulation.simps [of h rng p T dt i st])
    show ?thesis
    proof (cases "i + 1 < MaxIterations h")
      case True
      from "1.IH" [OF "1.prems" refl False True] obtain j st' where
        j: "i + 1 \<le> j" "j < MaxIterations h"
           "iterations st' = iterations ?st' + (j - (i + 1))"
           "runSimulation h rng p T dt (i + 1) ?st' = iteration h rng p T dt j st'"
           "converged (iteration h rng p T dt j st') \<or> j + 1 = MaxIterations h"
        by blast
      have "iterations ?st' = iterations st + 1"
        by (simp add: iteration_def Let_def split: prod.splits)
      with j unfold show ?thesis
        by (intro exI [of _ j] exI [of _ st']) simp
    next
      case stop: False
      then have "runSimulation h rng p T dt (i + 1) ?st' = ?st'"
        by (simp add: runSimulation.simps [of h rng p T dt "i + 1" ?st'])
      with unfold stop "1.prems" show ?thesis
        by (intro exI [of _ i] exI [of _ st]) simp
    qed
  qed
qed


lemma setDefaults_fields:
  "LambdaCount (setDefaults profile req) = (if LambdaCount req = 0 then 8 else LambdaCount req)"
  "InitialBER (setDefaults profile req) = (if InitialBER req = 0 then 1 / 10 ^ 9 else InitialBER req)"
  "InitialEyeMargin (setDefaults profile req) =
     (if InitialEyeMargin req = 0 then 0.5 else InitialEyeMargin req)"
  "SimulationRequest.Temperature (setDefaults profile req) =
     (if SimulationRequest.Temperature req = 0 then Temperature profile
      else SimulationRequest.Temperature req)"
  "Duration (setDefaults profile req) = (if Duration req = 0 then 60 else Duration req)"
  "TargetBER (setDefaults profile req) = TargetBER req"
  "SimulationRequest.CorridorID (setDefaults profile req) = SimulationRequest.CorridorID req"
  "AmbientProfile (setDefaults profile req) = AmbientProfile req"
  by (simp_all add: setDefaults_def Let_def)

lemma Simulate_response:
  assumes "Simulate h rng k req0 = (Inr resp, k')"
  shows "\<exists>profile bias0 shifts0 power0 k1 st0 st.
     GetAmbientProfiles h (AmbientProfile req0) = Some profile \<and>
     0 < LambdaCount (setDefaults profile req0) \<and>
     initLanes rng (nat (LambdaCount (setDefaults profile req0))) k = (bias0, shifts0, power0, k1) \<and>
     biasVoltages st0 = bias0 \<and> lambdaShifts st0 = shifts0 \<and> laserPowerAdjust st0 = power0 \<and>
     currentBER st0 = InitialBER (setDefaults profile req0) \<and>
     currentEyeMargin st0 = InitialEyeMargin (setDefaults profile req0) \<and>
     temperatureProfile st0 = [] \<and> berProfile st0 = [] \<and> eyeMarginProfile st0 = [] \<and>
     \<not> converged st0 \<and> iterations st0 = 0 \<and> position st0 = k1 \<and>
     st = runSimulation h rng profile (TargetBER req0)
            (real_of_int (Duration (setDefaults profile req0)) / real_of_int (MaxIterations h)) 0 st0 \<and>
     k' = position st \<and>
     SimulationResponse.CorridorID resp = SimulationRequest.CorridorID req0 \<and>
     Status resp = (if \<not> converged st then ''partial_convergence'' else ''converged'') \<and>
     Converged resp = converged st \<and>
     FinalBER resp = currentBER st \<and>
     FinalEyeMargin resp = currentEyeMargin st \<and>
     ConvergenceTime resp = real_of_int (iterations st) *
        (real_of_int (Duration (setDefaults profile req0)) / real_of_int (MaxIterations h)) \<and>
     Iterations resp = iterations st \<and>
     BiasVoltages resp = biasVoltages st \<and>
     LambdaShifts resp = lambdaShifts st \<and>
     LaserPowerAdjust resp = laserPowerAdjust st \<and>
     PowerSavings resp = calculatePowerSavings h (biasVoltages st) (laserPowerAdjust st) \<and>
     TemperatureProfile resp = temperatureProfile st \<and>
     BERProfile resp = berProfile st \<and>
     EyeMarginProfile resp = eyeMarginProfile st \<and>
     Error resp = []"
proof -
  from assms obtain profile where
    prof: "GetAmbientProfiles h (AmbientProfile req0) = Some profile"
    by (auto simp: Simulate_def split: option.splits)
  let ?req = "setDefaults profile req0"
  from assms prof have nonneg: "\<not> makeslicePanics (LambdaCount ?req)"
    by (auto simp: Simulate_def split: if_splits)
  then have pos: "0 < LambdaCount ?req"
    by (auto simp: setDefaults_fields makeslicePanics_def split: if_splits)
  obtain bias0 shifts0 power0 k1 where
    init: "initLanes rng (nat (LambdaCount ?req)) k = (bias0, shifts0, power0, k1)"
    by (metis prod_cases4)
  define dt where "dt = real_of_int (Duration ?req) / real_of_int (MaxIterations h)"
  define st0 where "st0 =
     \<lparr>currentBER = InitialBER ?req, currentEyeMargin = InitialEyeMargin ?req,
      biasVoltages = bias0, lambdaShifts = shifts0, laserPowerAdjust = power0,
      temperatureProfile = [], berProfile = [], eyeMarginProfile = [],
      converged = False, iterations = 0, position = k1\<rparr>"
  define st where "st = runSimulation h rng profile (TargetBER req0) dt 0 st0"
  from assms have both:
    "resp = \<lparr>CorridorID = SimulationRequest.CorridorID req0,
        Status = (if \<not> converged st then ''partial_convergence'' else ''converged''),
        Converged = converged st,
        FinalBER = currentBER st,
        FinalEyeMargin = currentEyeMargin st,
        ConvergenceTime = real_of_int (iterations st) * dt,
        Iterations = iterations st,
        BiasVoltages = biasVoltages st,
        LambdaShifts = lambdaShifts st,
        LaserPowerAdjust = laserPowerAdjust st,
        PowerSavings = calculatePowerSavings h (biasVoltages st) (laserPowerAdjust st),
        TemperatureProfile = temperatureProfile st,
        BERProfile = berProfile st,
        EyeMarginProfile = eyeMarginProfile st,
        Error = []\<rparr> \<and> k' = position st"
    unfolding Simulate_def prof option.case Let_def
    using nonneg init
    by (simp add: st_def st0_def dt_def setDefaults_fields(6,7))
  show ?thesis
    apply (rule exI [of _ profile], rule exI [of _ bias0], rule exI [of _ shifts0])
    apply (rule exI [of _ power0], rule exI [of _ k1], rule exI [of _ st0], rule exI [of _ st])
    using prof pos init both
    by (simp add: st0_def st_def dt_def)
qed


lemma iteration_iterations:
  "iterations (iteration h rng p T dt i st) = iterations st + 1"
  by (simp add: iteration_def Let_def split: prod.splits)

lemma runSimulation_iterations:
  assumes "i < MaxIterations h"
  shows "iterations st + 1 \<le> iterations (runSimulation h rng p T dt i st) \<and>
         iterations (runSimulation h rng p T dt i st) \<le> iterations st + (MaxIterations h - i)"
proof -
  from runSimulation_shape [OF assms, of st rng p T dt] obtain j st' where
    "i \<le> j" "j < MaxIterations h" "iterations st' = iterations st + (j - i)"
    "runSimulation h rng p T dt i st = iteration h rng p T dt j st'"
    by blast
  then show ?thesis
    by (simp add: iteration_iterations)
qed

lemma Simulate_known:
  assumes "GetAmbientProfiles h (AmbientProfile req) = Some profile"
  shows "(makeslicePanics (LambdaCount (setDefaults profile req)) \<and>
          Simulate h rng k req = (Inl MakeslicePanic, k)) \<or>
         (\<not> makeslicePanics (LambdaCount (setDefaults profile req)) \<and>
          (\<exists>resp k'. Simulate h rng k req = (Inr resp, k')))"
  using assms by (simp add: Simulate_def Let_def split: prod.splits)

lemma runSimulation_bounded:
  "iterations (runSimulation h rng p T dt i st) \<le> iterations st + max 0 (MaxIterations h - i)"
proof (cases "i < MaxIterations h")
  case True
  with runSimulation_iterations [OF True, of st rng p T dt] show ?thesis
    by simp
next
  case False
  then show ?thesis
    by (simp add: runSimulation.simps [of h rng p T dt i st])
qed

text \<open>
  C3: the calibration loop is a total function, and entered at index \<open>i\<close> it runs its
  body at most \<open>MaxIterations - i\<close> times, whatever the simulator, the state, the
  profile and the draws: it cannot hang and never goes beyond \<open>MaxIterations\<close>. The
  simulator that \<open>main\<close> constructs has \<open>MaxIterations\<close> = 50, and \<open>Simulate\<close>
  enters the loop at index 0 with \<open>iterations\<close> = 0, so every response that it returns
  has an iteration count of at most 50.
\<close>

theorem calibration_loop_bounded:
  "iterations (runSimulation h rng profile targetBER dt i st)
     \<le> iterations st + max 0 (MaxIterations h - i) \<and>
   MaxIterations NewHELIOPASSSimulator = 50 \<and>
   (\<forall>resp k'. Simulate NewHELIOPASSSimulator rng k req = (Inr resp, k') \<longrightarrow>
      Iterations resp \<le> 50)"
proof -
  let ?h = NewHELIOPASSSimulator
  have max: "MaxIterations ?h = 50"
    by (simp add: NewHELIOPASSSimulator_def)
  have "Iterations resp \<le> 50"
    if sim: "Simulate ?h rng k req = (Inr resp, k')" for resp k'
  proof -
    from Simulate_response [OF sim] obtain p d st0 where
      "iterations st0 = 0"
      "Iterations resp = iterations (runSimulation ?h rng p (TargetBER req) d 0 st0)"
      by blast
    with runSimulation_bounded [of ?h rng p "TargetBER req" d 0 st0] max show ?thesis
      by simp
  qed
  with max runSimulation_bounded [of h rng profile targetBER dt i st] show ?thesis
    by blast
qed

theorem calibration_loop_bounded_witness:
  "\<exists>resp k'. Simulate NewHELIOPASSSimulator steady_source 0 lab_request = (Inr resp, k') \<and>
     Iterations resp \<le> 50"
proof -
  obtain profile where
    p: "GetAmbientProfiles NewHELIOPASSSimulator (AmbientProfile lab_request) = Some profile"
    by (simp add: GetAmbientProfiles_def lab_request_def)
  have "\<not> makeslicePanics (LambdaCount (setDefaults profile lab_request))"
    by (simp add: lab_request_def setDefaults_fields makeslicePanics_def maxAlloc_def)
  with Simulate_known [OF p, of steady_source 0] obtain resp k' where
    sim: "Simulate NewHELIOPASSSimulator steady_source 0 lab_request = (Inr resp, k')"
    by blast
  with calibration_loop_bounded [where rng = steady_source and k = 0 and req = lab_request]
  show ?thesis
    by blast
qed

lemma updateBiasVoltages_length:
  "updateBiasVoltages h rng vs t p k = (vs', k') \<Longrightarrow>
   length vs' = length vs \<and> k' = k + length vs"
  by (induction vs arbitrary: k vs' k')
     (fastforce simp: Let_def Float64_def split: prod.splits)+

lemma updateLambdaShifts_length:
  "updateLambdaShifts h rng vs t p k = (vs', k') \<Longrightarrow>
   length vs' = length vs \<and> k' = k + length vs"
  by (induction vs arbitrary: k vs' k')
     (fastforce simp: Let_def Float64_def split: prod.splits)+

lemma updateLaserPower_length:
  "updateLaserPower h rng vs t p k = (vs', k') \<Longrightarrow>
   length vs' = length vs \<and> k' = k + length vs"
  by (induction vs arbitrary: k vs' k')
     (fastforce simp: Let_def Float64_def split: prod.splits)+

lemma initLanes_length:
  "initLanes rng n k = (bs, ls, ps, k') \<Longrightarrow>
   length bs = n \<and> length ls = n \<and> length ps = n \<and> k' = k + 3 * n"
  by (induction n arbitrary: k bs ls ps k')
     (fastforce simp: Let_def Float64_def split: prod.splits)+

lemma iteration_currentBER:
  "currentBER (iteration h rng p T dt i st) =
     max (T + (currentBER st - T) *
                (exp (- real_of_int i * ConvergenceRate h)
                  + (rng (Suc (position st)) - 0.5) * NoiseLevel p)
            + (sin (real_of_int i * dt * 0.5) * (NoiseLevel p * (1 / 10 ^ 12)) * 0.5
                + (rng (Suc (Suc (position st))) - 0.5) * (NoiseLevel p * (1 / 10 ^ 12))))
         (1 / 10 ^ 15)"
  by (simp only: iteration_def Let_def case_prod_beta Float64_def simulateTemperatureNoise_def
        calculateImprovement_def calculateBERNoise_def fst_conv snd_conv sim_state.simps)

lemma iteration_currentEyeMargin:
  "currentEyeMargin (iteration h rng p T dt i st) =
     max 0.1 (min 1.5
       (0.8 + (currentEyeMargin st - 0.8) *
                (exp (- real_of_int i * ConvergenceRate h * 0.8)
                  + (rng (Suc (Suc (Suc (position st)))) - 0.5) * NoiseLevel p * 0.1)
            + (sin (real_of_int i * dt * 0.3) * (NoiseLevel p * 0.01) * 0.5
                + (rng (Suc (Suc (Suc (Suc (position st))))) - 0.5) * (NoiseLevel p * 0.01))))"
  by (simp only: iteration_def Let_def case_prod_beta Float64_def simulateTemperatureNoise_def
        calculateImprovement_def calculateBERNoise_def calculateEyeImprovement_def
        calculateEyeNoise_def fst_conv snd_conv sim_state.simps)

lemma iteration_slices:
  "biasVoltages (iteration h rng p T dt i st) =
     fst (updateBiasVoltages h rng (biasVoltages st) (real_of_int i * dt) p (position st + 5))"
  "lambdaShifts (iteration h rng p T dt i st) =
     fst (updateLambdaShifts h rng (lambdaShifts st) (real_of_int i * dt) p
           (snd (updateBiasVoltages h rng (biasVoltages st) (real_of_int i * dt) p (position st + 5))))"
  "laserPowerAdjust (iteration h rng p T dt i st) =
     fst (updateLaserPower h rng (laserPowerAdjust st) (real_of_int i * dt) p
           (snd (updateLambdaShifts h rng (lambdaShifts st) (real_of_int i * dt) p
             (snd (updateBiasVoltages h rng (biasVoltages st) (real_of_int i * dt) p (position st + 5))))))"
  "position (iteration h rng p T dt i st) =
     snd (updateLaserPower h rng (laserPowerAdjust st) (real_of_int i * dt) p
           (snd (updateLambdaShifts h rng (lambdaShifts st) (real_of_int i * dt) p
             (snd (updateBiasVoltages h rng (biasVoltages st) (real_of_int i * dt) p (position st + 5))))))"
  by (simp_all add: iteration_def Let_def case_prod_beta Float64_def simulateTemperatureNoise_def
        calculateImprovement_def calculateBERNoise_def calculateEyeImprovement_def
        calculateEyeNoise_def eval_nat_numeral)

lemma iteration_lengths:
  "length (biasVoltages (iteration h rng p T dt i st)) = length (biasVoltages st)"
  "length (lambdaShifts (iteration h rng p T dt i st)) = length (lambdaShifts st)"
  "length (laserPowerAdjust (iteration h rng p T dt i st)) = length (laserPowerAdjust st)"
  "position (iteration h rng p T dt i st) =
     position st + 5 + length (biasVoltages st) + length (lambdaShifts st)
       + length (laserPowerAdjust st)"
  unfolding iteration_slices
  using updateBiasVoltages_length [OF surjective_pairing]
        updateLambdaShifts_length [OF surjective_pairing]
        updateLaserPower_length [OF surjective_pairing]
  by simp_all


lemma runSimulation_lengths:
  "length (biasVoltages (runSimulation h rng p T dt i st)) = length (biasVoltages st) \<and>
   length (lambdaShifts (runSimulation h rng p T dt i st)) = length (lambdaShifts st) \<and>
   length (laserPowerAdjust (runSimulation h rng p T dt i st)) = length (laserPowerAdjust st)"
proof (induction h rng p T dt i st rule: runSimulation.induct)
  case (1 h rng p T dt i st)
  show ?case
    using "1.IH" [OF _ refl]
    by (subst (1 2 3) runSimulation.simps) (simp add: Let_def iteration_lengths)
qed

lemma iteration_BER_floor: "1 / 10 ^ 15 \<le> currentBER (iteration h rng p T dt i st)"
  unfolding iteration_currentBER by (rule max.cobounded2)


lemma final_state_cases:
  assumes "Simulate NewHELIOPASSSimulator rng k req = (Inr resp, k')"
  obtains pr d j st0 st' where
    "iterations st0 = 0"
    "FinalBER resp = currentBER (iteration NewHELIOPASSSimulator rng pr (TargetBER req) d j st')"
    "FinalEyeMargin resp =
       currentEyeMargin (iteration NewHELIOPASSSimulator rng pr (TargetBER req) d j st')"
    "BiasVoltages resp = biasVoltages (iteration NewHELIOPASSSimulator rng pr (TargetBER req) d j st')"
    "LambdaShifts resp = lambdaShifts (iteration NewHELIOPASSSimulator rng pr (TargetBER req) d j st')"
    "LaserPowerAdjust resp =
       laserPowerAdjust (iteration NewHELIOPASSSimulator rng pr (TargetBER req) d j st')"
    "Iterations resp = iterations (runSimulation NewHELIOPASSSimulator rng pr (TargetBER req) d 0 st0)"
proof -
  let ?h = NewHELIOPASSSimulator
  have max: "0 < MaxIterations ?h"
    by (simp add: NewHELIOPASSSimulator_def)
  from Simulate_response [OF assms] obtain pr d st0 where
    st0: "iterations st0 = 0" and
    ber: "FinalBER resp = currentBER (runSimulation ?h rng pr (TargetBER req) d 0 st0)" and
    eye: "FinalEyeMargin resp = currentEyeMargin (runSimulation ?h rng pr (TargetBER req) d 0 st0)" and
    its: "Iterations resp = iterations (runSimulation ?h rng pr (TargetBER req) d 0 st0)" and
    b: "BiasVoltages resp = biasVoltages (runSimulation ?h rng pr (TargetBER req) d 0 st0)" and
    l: "LambdaShifts resp = lambdaShifts (runSimulation ?h rng pr (TargetBER req) d 0 st0)" and
    a: "LaserPowerAdjust resp = laserPowerAdjust (runSimulation ?h rng pr (TargetBER req) d 0 st0)"
    by blast
  from runSimulation_shape [OF max, of st0 rng pr "TargetBER req" d] obtain j st' where
    last: "runSimulation ?h rng pr (TargetBER req) d 0 st0 = iteration ?h rng pr (TargetBER req) d j st'"
    by blast
  show thesis
    by (rule that [of st0 pr d j st']) (simp_all only: st0 ber eye its b l a last [symmetric])
qed



text \<open>
  C5: after every pass through the loop body, for every lane, the bias voltage lies in
  [0.8, 1.5], the wavelength shift in [-0.1, 0.1] and the laser power adjustment in
  [-2.0, 2.0]; the same holds of the three vectors of every response that
  \<open>Simulate\<close> returns.
\<close>

theorem corrections_clamped:
  "(\<forall>v \<in> set (biasVoltages (iteration h rng p T dt i st)). 0.8 \<le> v \<and> v \<le> 1.5) \<and>
   (\<forall>s \<in> set (lambdaShifts (iteration h rng p T dt i st)). - 0.1 \<le> s \<and> s \<le> 0.1) \<and>
   (\<forall>a \<in> set (laserPowerAdjust (iteration h rng p T dt i st)). - 2 \<le> a \<and> a \<le> 2) \<and>
   (\<forall>resp k'. Simulate NewHELIOPASSSimulator rng k req = (Inr resp, k') \<longrightarrow>
      (\<forall>v \<in> set (BiasVoltages resp). 0.8 \<le> v \<and> v \<le> 1.5) \<and>
      (\<forall>s \<in> set (LambdaShifts resp). - 0.1 \<le> s \<and> s \<le> 0.1) \<and>
      (\<forall>a \<in> set (LaserPowerAdjust resp). - 2 \<le> a \<and> a \<le> 2))"
proof -
  have bias: "\<forall>v \<in> set (biasVoltages (iteration h rng p T dt i st)). 0.8 \<le> v \<and> v \<le> 1.5"
    for h rng p T dt i st
    by (intro ballI) (rule iteration_bias_clamped)
  have shift: "\<forall>s \<in> set (lambdaShifts (iteration h rng p T dt i st)). - 0.1 \<le> s \<and> s \<le> 0.1"
    for h rng p T dt i st
    by (intro ballI) (rule iteration_shift_clamped)
  have power: "\<forall>a \<in> set (laserPowerAdjust (iteration h rng p T dt i st)). - 2 \<le> a \<and> a \<le> 2"
    for h rng p T dt i st
    by (intro ballI) (rule iteration_power_clamped)
  have resp: "(\<forall>v \<in> set (BiasVoltages resp). 0.8 \<le> v \<and> v \<le> 1.5) \<and>
      (\<forall>s \<in> set (LambdaShifts resp). - 0.1 \<le> s \<and> s \<le> 0.1) \<and>
      (\<forall>a \<in> set (LaserPowerAdjust resp). - 2 \<le> a \<and> a \<le> 2)"
    if sim: "Simulate NewHELIOPASSSimulator rng k req = (Inr resp, k')" for resp k'
  proof -
    from sim obtain pr d j st' where eqs:
      "BiasVoltages resp = biasVoltages (iteration NewHELIOPASSSimulator rng pr (TargetBER req) d j st')"
      "LambdaShifts resp = lambdaShifts (iteration NewHELIOPASSSimulator rng pr (TargetBER req) d j st')"
      "LaserPowerAdjust resp =
         laserPowerAdjust (iteration NewHELIOPASSSimulator rng pr (TargetBER req) d j st')"
      by (rule final_state_cases)
    show ?thesis
      unfolding eqs by (intro conjI bias shift power)
  qed
  show ?thesis
    using resp by (intro conjI allI impI bias shift power) blast+
qed


lemma Simulate_lane_count:
  assumes "Simulate h rng k req = (Inr resp, k')"
  shows "length (BiasVoltages resp) = nat (if LambdaCount req = 0 then 8 else LambdaCount req) \<and>
         length (LambdaShifts resp) = nat (if LambdaCount req = 0 then 8 else LambdaCount req) \<and>
         length (LaserPowerAdjust resp) = nat (if LambdaCount req = 0 then 8 else LambdaCount req) \<and>
         0 < (if LambdaCount req = 0 then 8 else LambdaCount req)"
proof -
  from Simulate_response [OF assms] obtain profile bias0 shifts0 power0 k1 st0 st where
    pos: "0 < LambdaCount (setDefaults profile req)" and
    init: "initLanes rng (nat (LambdaCount (setDefaults profile req))) k = (bias0, shifts0, power0, k1)" and
    st0: "biasVoltages st0 = bias0" "lambdaShifts st0 = shifts0" "laserPowerAdjust st0 = power0" and
    st: "st = runSimulation h rng profile (TargetBER req)
            (real_of_int (Duration (setDefaults profile req)) / real_of_int (MaxIterations h)) 0 st0" and
    resp: "BiasVoltages resp = biasVoltages st" "LambdaShifts resp = lambdaShifts st"
          "LaserPowerAdjust resp = laserPowerAdjust st"
    by blast
  from initLanes_length [OF init] st0 runSimulation_lengths [of h rng profile "TargetBER req" _ 0 st0]
  have "length (biasVoltages st) = nat (LambdaCount (setDefaults profile req))"
       "length (lambdaShifts st) = nat (LambdaCount (setDefaults profile req))"
       "length (laserPowerAdjust st) = nat (LambdaCount (setDefaults profile req))"
    unfolding st by simp_all
  with pos resp show ?thesis
    by (simp add: setDefaults_fields)
qed

theorem corrections_clamped_witness:
  "\<exists>resp k'. Simulate NewHELIOPASSSimulator steady_source 0 lab_request = (Inr resp, k') \<and>
      length (BiasVoltages resp) = 8 \<and> length (LambdaShifts resp) = 8 \<and>
      length (LaserPowerAdjust resp) = 8 \<and>
      list_all (\<lambda>v. 0.8 \<le> v \<and> v \<le> 1.5) (BiasVoltages resp) \<and>
      list_all (\<lambda>s. - 0.1 \<le> s \<and> s \<le> 0.1) (LambdaShifts resp) \<and>
      list_all (\<lambda>a. - 2 \<le> a \<and> a \<le> 2) (LaserPowerAdjust resp)"
proof -
  obtain profile where
    p: "GetAmbientProfiles NewHELIOPASSSimulator (AmbientProfile lab_request) = Some profile"
    by (simp add: GetAmbientProfiles_def lab_request_def)
  have "\<not> makeslicePanics (LambdaCount (setDefaults profile lab_request))"
    by (simp add: lab_request_def setDefaults_fields makeslicePanics_def maxAlloc_def)
  with Simulate_known [OF p, of steady_source 0] obtain resp k' where
    sim: "Simulate NewHELIOPASSSimulator steady_source 0 lab_request = (Inr resp, k')"
    by blast
  from Simulate_lane_count [OF sim] have
    "length (BiasVoltages resp) = 8 \<and> length (LambdaShifts resp) = 8 \<and>
     length (LaserPowerAdjust resp) = 8"
    by (simp add: lab_request_def)
  with sim corrections_clamped [where rng = steady_source and k = 0 and req = lab_request]
  show ?thesis
    unfolding list_all_iff by blast
qed

lemma voltage_sum_antimono:
  "list_all2 (\<le>) xs' xs \<Longrightarrow>
   (\<Sum>v\<leftarrow>xs. (1.2 - v) * 10.0) \<le> (\<Sum>v\<leftarrow>xs'. (1.2 - v) * (10.0::real))"
  by (induction rule: list_all2_induct) (simp_all add: add_mono)

lemma laser_sum_antimono:
  "list_all2 (\<le>) ps' ps \<Longrightarrow>
   (\<Sum>p\<leftarrow>ps. if p < 0 then \<bar>p\<bar> * 5.0 else 0) \<le> (\<Sum>p\<leftarrow>ps'. if p < 0 then \<bar>p\<bar> * 5.0 else (0::real))"
  by (induction rule: list_all2_induct) (auto intro!: add_mono)

lemma laser_sum_nonneg: "0 \<le> (\<Sum>p\<leftarrow>ps. if p < 0 then \<bar>p\<bar> * 5.0 else (0::real))"
  by (induction ps) auto

lemma clamp_mono: "(a::real) \<le> b \<Longrightarrow> max lo (min hi a) \<le> max lo (min hi b)"
  by (simp add: max_def min_def)

lemma calculatePowerSavings_range:
  assumes "bias \<noteq> []" "laser \<noteq> []"
  shows "\<exists>x. calculatePowerSavings h bias laser = Some x \<and> 0 \<le> x \<and> x \<le> 20"
  using assms clamp_bounds [of 0 20]
  by (simp add: calculatePowerSavings_def Let_def)

lemma calculatePowerSavings_mono:
  assumes b: "list_all2 (\<le>) bias' bias" and l: "list_all2 (\<le>) laser' laser"
    and ne: "bias \<noteq> []" "laser \<noteq> []"
  shows "\<exists>x y. calculatePowerSavings h bias laser = Some x \<and>
               calculatePowerSavings h bias' laser' = Some y \<and> x \<le> y"
proof -
  from b l have len: "length bias' = length bias" "length laser' = length laser"
    by (simp_all add: list_all2_lengthD)
  with ne have ne': "bias' \<noteq> []" "laser' \<noteq> []"
    by auto
  have v: "(\<Sum>v\<leftarrow>bias. (1.2 - v) * 10.0) / real (length bias)
             \<le> (\<Sum>v\<leftarrow>bias'. (1.2 - v) * 10.0) / real (length bias')"
    unfolding len by (rule divide_right_mono [OF voltage_sum_antimono [OF b]]) simp
  have p: "(\<Sum>p\<leftarrow>laser. if p < 0 then \<bar>p\<bar> * 5.0 else 0) / real (length laser)
             \<le> (\<Sum>p\<leftarrow>laser'. if p < 0 then \<bar>p\<bar> * 5.0 else 0) / real (length laser')"
    unfolding len by (rule divide_right_mono [OF laser_sum_antimono [OF l]]) simp
  from ne ne' show ?thesis
    unfolding calculatePowerSavings_def Let_def
    using clamp_mono [OF add_mono [OF v p], of 0 20] by simp
qed

text \<open>
  C6: \<open>calculatePowerSavings\<close> of non-empty vectors lies in [0, 20]; lowering any
  lane's bias voltage or any lane's laser power adjustment never lowers it; and the
  \<open>power_savings_percent\<close> of every response that \<open>Simulate\<close> returns lies in
  [0, 20]. (A response always has at least one lane. For an empty vector Go computes
  0.0 / 0.0, which is why the function-level statement asks for non-empty vectors.)
\<close>

theorem power_savings_bounded_monotone:
  "(bias \<noteq> [] \<and> laser \<noteq> [] \<longrightarrow>
      (\<exists>x. calculatePowerSavings h bias laser = Some x \<and> 0 \<le> x \<and> x \<le> 20)) \<and>
   (bias \<noteq> [] \<and> laser \<noteq> [] \<and> list_all2 (\<le>) bias' bias \<and> list_all2 (\<le>) laser' laser \<longrightarrow>
      (\<exists>x y. calculatePowerSavings h bias laser = Some x \<and>
             calculatePowerSavings h bias' laser' = Some y \<and> x \<le> y)) \<and>
   (\<forall>resp k'. Simulate h rng k req = (Inr resp, k') \<longrightarrow>
      (\<exists>x. PowerSavings resp = Some x \<and> 0 \<le> x \<and> x \<le> 20))"
proof (intro conjI allI impI)
  fix resp k'
  assume sim: "Simulate h rng k req = (Inr resp, k')"
  from Simulate_lane_count [OF sim] have "BiasVoltages resp \<noteq> []" "LaserPowerAdjust resp \<noteq> []"
    by (auto split: if_splits)
  moreover from Simulate_response [OF sim] have
    "PowerSavings resp = calculatePowerSavings h (BiasVoltages resp) (LaserPowerAdjust resp)"
    by auto
  ultimately show "\<exists>x. PowerSavings resp = Some x \<and> 0 \<le> x \<and> x \<le> 20"
    using calculatePowerSavings_range by simp
qed (use calculatePowerSavings_range calculatePowerSavings_mono in blast)+

theorem power_savings_bounded_monotone_witness:
  "calculatePowerSavings NewHELIOPASSSimulator [1.2, 1.3] [0.5, - 1] = Some 2 \<and>
   calculatePowerSavings NewHELIOPASSSimulator [1.0, 1.3] [0.5, - 2] = Some 5.5 \<and>
   list_all2 (\<le>) [1.0, 1.3] [1.2, 1.3::real] \<and> list_all2 (\<le>) [0.5, - 2] [0.5, - 1::real] \<and>
   (\<exists>resp k' x. Simulate NewHELIOPASSSimulator steady_source 0 lab_request = (Inr resp, k') \<and>
      PowerSavings resp = Some x \<and> 0 \<le> x \<and> x \<le> 20)"
proof -
  obtain profile where
    p: "GetAmbientProfiles NewHELIOPASSSimulator (AmbientProfile lab_request) = Some profile"
    by (simp add: GetAmbientProfiles_def lab_request_def)
  have "\<not> makeslicePanics (LambdaCount (setDefaults profile lab_request))"
    by (simp add: lab_request_def setDefaults_fields makeslicePanics_def maxAlloc_def)
  with Simulate_known [OF p, of steady_source 0] obtain resp k' where
    sim: "Simulate NewHELIOPASSSimulator steady_source 0 lab_request = (Inr resp, k')"
    by blast
  have vals: "calculatePowerSavings NewHELIOPASSSimulator [1.2, 1.3] [0.5, - 1] = Some 2"
    "calculatePowerSavings NewHELIOPASSSimulator [1.0, 1.3] [0.5, - 2] = Some 5.5"
    by (simp_all add: calculatePowerSavings_def Let_def)
  have le: "list_all2 (\<le>) [1.0, 1.3] [1.2, 1.3::real]" "list_all2 (\<le>) [0.5, - 2] [0.5, - 1::real]"
    by simp_all
  from power_savings_bounded_monotone
         [of "[1.2, 1.3]" "[0.5, - 1]" NewHELIOPASSSimulator "[1.0, 1.3]" "[0.5, - 2]"
             steady_source 0 lab_request]
       sim vals le
  show ?thesis by auto
qed

lemma GetAmbientProfiles_dom:
  "GetAmbientProfiles h name \<noteq> None \<longleftrightarrow>
     name \<in> {''lab_default'', ''field_noise_low'', ''field_noise_high'', ''datacenter'', ''space_sim''}"
  by (simp add: GetAmbientProfiles_def)

lemma Simulate_error_iff:
  "(\<exists>msg. fst (Simulate h rng k req) = Inl (ErrorString msg)) \<longleftrightarrow>
     GetAmbientProfiles h (AmbientProfile req) = None"
  by (auto simp: Simulate_def Let_def split: option.splits prod.splits)

text \<open>
  C8: \<open>Simulate\<close> returns the error value exactly for an unknown profile name
  (\<open>Simulate_error_iff\<close>) and replaces zero fields by 8 lanes, 1e-9, 0.5 and 60
  seconds (\<open>setDefaults_fields\<close>); but a known profile does not always succeed.
  For the request with \<open>lambda_count\<close> = -1 and the known profile \<open>lab_default\<close>
  the call panics in \<open>make([]float64, -1)\<close> and returns nothing.
\<close>

theorem Simulate_negative_lane_count:
  "GetAmbientProfiles NewHELIOPASSSimulator (AmbientProfile negative_lanes_request) \<noteq> None \<and>
   Simulate NewHELIOPASSSimulator rng k negative_lanes_request = (Inl MakeslicePanic, k)"
  by (simp add: Simulate_def Let_def GetAmbientProfiles_def negative_lanes_request_def
        lab_request_def setDefaults_fields makeslicePanics_def)

text \<open>
  The same happens above the allocation limit: with \<open>lambda_count\<close> = \<open>2 ^ 62\<close> and the
  known profile \<open>lab_default\<close> the call panics in \<open>make\<close> as well.
\<close>

lemma Simulate_huge_lane_count:
  "Simulate NewHELIOPASSSimulator rng k (lab_request\<lparr>LambdaCount := 2 ^ 62\<rparr>)
     = (Inl MakeslicePanic, k)"
  by (simp add: Simulate_def Let_def GetAmbientProfiles_def lab_request_def setDefaults_fields
        makeslicePanics_def maxAlloc_def)


lemma Simulate_fields:
  assumes prof: "GetAmbientProfiles h (AmbientProfile req0) = Some profile"
    and nonneg: "\<not> makeslicePanics (LambdaCount (setDefaults profile req0))"
    and init: "initLanes rng (nat (LambdaCount (setDefaults profile req0))) k
                 = (bias0, shifts0, power0, k1)"
    and st: "st = runSimulation h rng profile (TargetBER req0)
               (real_of_int (Duration (setDefaults profile req0)) / real_of_int (MaxIterations h)) 0
               \<lparr>currentBER = InitialBER (setDefaults profile req0),
                currentEyeMargin = InitialEyeMargin (setDefaults profile req0),
                biasVoltages = bias0, lambdaShifts = shifts0, laserPowerAdjust = power0,
                temperatureProfile = [], berProfile = [], eyeMarginProfile = [],
                converged = False, iterations = 0, position = k1\<rparr>"
  shows "\<exists>resp. Simulate h rng k req0 = (Inr resp, position st) \<and>
           Converged resp = converged st \<and>
           Status resp = (if \<not> converged st then ''partial_convergence'' else ''converged'') \<and>
           FinalBER resp = currentBER st \<and> FinalEyeMargin resp = currentEyeMargin st \<and>
           Iterations resp = iterations st \<and>
           BiasVoltages resp = biasVoltages st \<and> LambdaShifts resp = lambdaShifts st \<and>
           LaserPowerAdjust resp = laserPowerAdjust st \<and>
           BERProfile resp = berProfile st \<and> EyeMarginProfile resp = eyeMarginProfile st \<and>
           TemperatureProfile resp = temperatureProfile st"
  using nonneg
  unfolding Simulate_def prof option.case Let_def init prod.case st
  by (simp add: setDefaults_fields(6))

lemma runSimulation_first:
  assumes "0 < MaxIterations h" "converged (iteration h rng p T dt 0 st)"
  shows "runSimulation h rng p T dt 0 st = iteration h rng p T dt 0 st"
  using assms by (subst runSimulation.simps) (simp add: Let_def)

lemma GetAmbientProfiles_lab_default:
  "GetAmbientProfiles h ''lab_default'' =
     Some \<lparr>Name = ''Laboratory Default'', Temperature = 22.0, Humidity = 45.0,
           VibrationRMS = 0.1, EMINoise = -80.0, DriftRate = 0.001,
           StabilityClass = ''excellent'', NoiseLevel = 0.05\<rparr>"
  by (simp add: GetAmbientProfiles_def)

lemma iteration_converged:
  "converged (iteration h rng p T dt i st) \<longleftrightarrow>
     currentBER (iteration h rng p T dt i st) \<le> T * 1.1 \<and>
     0.7 \<le> currentEyeMargin (iteration h rng p T dt i st)"
  by (simp add: iteration_def Let_def case_prod_beta)

lemma affine_bounds:
  fixes a c r :: real
  assumes "0 \<le> r" "r \<le> 1" "0 \<le> c"
  shows "a - c / 2 \<le> a + (r - 1 / 2) * c" "a + (r - 1 / 2) * c \<le> a + c / 2"
proof -
  have "0 \<le> r * c"
    using assms by simp
  moreover have "r * c \<le> 1 * c"
    using assms by (intro mult_right_mono)
  ultimately
  show "a - c / 2 \<le> a + (r - 1 / 2) * c" "a + (r - 1 / 2) * c \<le> a + c / 2"
    by (simp_all add: algebra_simps)
qed

lemma quick_request_pass:
  fixes rng :: rand_source and k :: nat
  defines "p \<equiv> \<lparr>Name = ''Laboratory Default'', Temperature = 22.0, Humidity = 45.0,
           VibrationRMS = 0.1, EMINoise = -80.0, DriftRate = 0.001,
           StabilityClass = ''excellent'', NoiseLevel = 0.05\<rparr>"
  assumes r1: "0 \<le> rng (k + 5)" "rng (k + 5) \<le> 1"
      and r2: "0 \<le> rng (k + 7)" "rng (k + 7) \<le> 1"
  shows "\<exists>resp. Simulate NewHELIOPASSSimulator rng k quick_request = (Inr resp, k + 11) \<and>
           Converged resp \<and>
           FinalBER resp = 1 / 10 ^ 12 + (rng (k + 5) - 1 / 2) * (1 / 20 * (1 / 10 ^ 12))"
proof -
  let ?h = NewHELIOPASSSimulator
  have prof: "GetAmbientProfiles ?h (AmbientProfile quick_request) = Some p"
    unfolding p_def by (simp add: quick_request_def GetAmbientProfiles_lab_default)
  have lanes: "LambdaCount (setDefaults p quick_request) = 1"
    by (simp add: setDefaults_fields quick_request_def)
  obtain bias0 shifts0 power0 k1 where
    init: "initLanes rng (nat (LambdaCount (setDefaults p quick_request))) k
             = (bias0, shifts0, power0, k1)"
    by (metis prod_cases4)
  from initLanes_length [OF init] have
    len: "length bias0 = 1" "length shifts0 = 1" "length power0 = 1" and k1: "k1 = k + 3"
    by (simp_all add: lanes)
  define st0 where "st0 =
     \<lparr>currentBER = InitialBER (setDefaults p quick_request),
      currentEyeMargin = InitialEyeMargin (setDefaults p quick_request),
      biasVoltages = bias0, lambdaShifts = shifts0, laserPowerAdjust = power0,
      temperatureProfile = [], berProfile = [], eyeMarginProfile = [],
      converged = False, iterations = 0, position = k1\<rparr>"
  define dt where
    "dt = real_of_int (Duration (setDefaults p quick_request)) / real_of_int (MaxIterations ?h)"
  define st where "st = runSimulation ?h rng p (TargetBER quick_request) dt 0 st0"
  let ?st1 = "iteration ?h rng p (TargetBER quick_request) dt 0 st0"
  define x where "x = 1 / 10 ^ 12 + (rng (k + 5) - 1 / 2) * (1 / 20 * (1 / 10 ^ 12))"
  define y where "y = 4 / 5 + (rng (k + 7) - 1 / 2) * (1 / 20 * (1 / 100) :: real)"
  have x: "1 / 10 ^ 12 - (1 / 20 * (1 / 10 ^ 12)) / 2 \<le> x"
          "x \<le> 1 / 10 ^ 12 + (1 / 20 * (1 / 10 ^ 12)) / 2"
    unfolding x_def using r1 by (intro affine_bounds; simp)+
  have y: "4 / 5 - (1 / 20 * (1 / 100)) / 2 \<le> y" "y \<le> 4 / 5 + (1 / 20 * (1 / 100)) / 2"
    unfolding y_def using r2 by (intro affine_bounds; simp)+
  have "currentBER ?st1 = max x (1 / 10 ^ 15)"
    by (simp add: iteration_currentBER st0_def k1 setDefaults_fields quick_request_def p_def
          eval_nat_numeral x_def)
  also have "\<dots> = x"
    using x(1) by (intro max_absorb1) simp
  finally have ber: "currentBER ?st1 = x" .
  have "currentEyeMargin ?st1 = max (1 / 10) (min (15 / 10) y)"
    by (simp add: iteration_currentEyeMargin st0_def k1 setDefaults_fields quick_request_def p_def
          eval_nat_numeral y_def)
  also have "\<dots> = y"
    using y by (simp add: max_def min_def)
  finally have eye: "currentEyeMargin ?st1 = y" .
  have conv: "converged ?st1"
    unfolding iteration_converged ber eye using x(2) y(1) by (simp add: quick_request_def)
  have pos: "position ?st1 = k + 11"
    by (simp add: iteration_lengths st0_def len k1)
  have "st = ?st1"
    unfolding st_def
    by (rule runSimulation_first) (simp add: NewHELIOPASSSimulator_def, rule conv)
  with Simulate_fields [OF prof _ init, of st] ber conv pos show ?thesis
    unfolding st_def st0_def dt_def x_def by (auto simp: lanes makeslicePanics_def maxAlloc_def)
qed


lemma updateBiasVoltages_shift:
  "updateBiasVoltages h rng vs t p (k + j)
     = apsnd ((+) k) (updateBiasVoltages h (\<lambda>n. rng (k + n)) vs t p j)"
  by (induction vs arbitrary: j)
     (simp_all add: Let_def Float64_def case_prod_beta flip: add_Suc_right)

lemma updateLambdaShifts_shift:
  "updateLambdaShifts h rng vs t p (k + j)
     = apsnd ((+) k) (updateLambdaShifts h (\<lambda>n. rng (k + n)) vs t p j)"
  by (induction vs arbitrary: j)
     (simp_all add: Let_def Float64_def case_prod_beta flip: add_Suc_right)

lemma updateLaserPower_shift:
  "updateLaserPower h rng vs t p (k + j)
     = apsnd ((+) k) (updateLaserPower h (\<lambda>n. rng (k + n)) vs t p j)"
  by (induction vs arbitrary: j)
     (simp_all add: Let_def Float64_def case_prod_beta flip: add_Suc_right)

lemma initLanes_shift:
  "initLanes rng m (k + j)
     = (case initLanes (\<lambda>n. rng (k + n)) m j of (bs, ls, ps, j') \<Rightarrow> (bs, ls, ps, k + j'))"
  by (induction m arbitrary: j)
     (simp_all add: Let_def Float64_def case_prod_beta flip: add_Suc_right)


lemma iteration_shift:
  "iteration h rng p T dt i (st\<lparr>position := k + position st\<rparr>)
     = (iteration h (\<lambda>n. rng (k + n)) p T dt i st)
         \<lparr>position := k + position (iteration h (\<lambda>n. rng (k + n)) p T dt i st)\<rparr>"
proof -
  let ?rng' = "\<lambda>n. rng (k + n)"
  let ?t = "real_of_int i * dt"
  let ?j5 = "Suc (Suc (Suc (Suc (Suc (position st)))))"
  have five: "Suc (Suc (Suc (Suc (Suc (k + position st))))) = k + ?j5"
    by simp
  let ?B = "updateBiasVoltages h ?rng' (biasVoltages st) ?t p ?j5"
  let ?L = "updateLambdaShifts h ?rng' (lambdaShifts st) ?t p (snd ?B)"
  let ?A = "updateLaserPower h ?rng' (laserPowerAdjust st) ?t p (snd ?L)"
  have b: "updateBiasVoltages h rng (biasVoltages st) ?t p
             (Suc (Suc (Suc (Suc (Suc (k + position st)))))) = apsnd ((+) k) ?B"
    unfolding five by (rule updateBiasVoltages_shift)
  have l: "updateLambdaShifts h rng (lambdaShifts st) ?t p (k + snd ?B) = apsnd ((+) k) ?L"
    by (rule updateLambdaShifts_shift)
  have a: "updateLaserPower h rng (laserPowerAdjust st) ?t p (k + snd ?L) = apsnd ((+) k) ?A"
    by (rule updateLaserPower_shift)
  show ?thesis
    by (simp add: iteration_def Let_def case_prod_beta Float64_def simulateTemperatureNoise_def
          calculateImprovement_def calculateBERNoise_def calculateEyeImprovement_def
          calculateEyeNoise_def b l a)
qed

lemma runSimulation_shift_aux:
  "rng' = (\<lambda>n. rng (k + n)) \<Longrightarrow>
   runSimulation h rng p T dt i (st\<lparr>position := k + position st\<rparr>)
     = (runSimulation h rng' p T dt i st)
         \<lparr>position := k + position (runSimulation h rng' p T dt i st)\<rparr>"
proof (induction h rng' p T dt i st rule: runSimulation.induct)
  case (1 h rng' p T dt i st)
  let ?st' = "iteration h rng' p T dt i st"
  have step: "iteration h rng p T dt i (st\<lparr>position := k + position st\<rparr>)
                = ?st'\<lparr>position := k + position ?st'\<rparr>"
    unfolding "1.prems" by (rule iteration_shift)
  show ?case
  proof (cases "i < MaxIterations h \<and> \<not> converged ?st'")
    case True
    then have "runSimulation h rng p T dt (i + 1) (?st'\<lparr>position := k + position ?st'\<rparr>)
       = (runSimulation h rng' p T dt (i + 1) ?st')
           \<lparr>position := k + position (runSimulation h rng' p T dt (i + 1) ?st')\<rparr>"
      using "1.IH" [OF _ refl _ "1.prems"] by blast
    with True show ?thesis
      by (simp add: runSimulation.simps [of h rng p T dt i]
            runSimulation.simps [of h rng' p T dt i] Let_def step)
  next
    case False
    then show ?thesis
      by (auto simp: runSimulation.simps [of h rng p T dt i]
            runSimulation.simps [of h rng' p T dt i] Let_def step)
  qed
qed

lemma runSimulation_shift:
  "runSimulation h rng p T dt i (st\<lparr>position := k + position st\<rparr>)
     = (runSimulation h (\<lambda>n. rng (k + n)) p T dt i st)
         \<lparr>position := k + position (runSimulation h (\<lambda>n. rng (k + n)) p T dt i st)\<rparr>"
  by (rule runSimulation_shift_aux) (rule refl)

lemma Simulate_shift:
  "Simulate h rng k req = apsnd ((+) k) (Simulate h (\<lambda>n. rng (k + n)) 0 req)"
proof (cases "GetAmbientProfiles h (AmbientProfile req)")
  case None
  then show ?thesis
    by (simp add: Simulate_def)
next
  case (Some profile)
  let ?rng' = "\<lambda>n. rng (k + n)"
  let ?n = "nat (LambdaCount (setDefaults profile req))"
  obtain bias0 shifts0 power0 j1 where
    lanes': "initLanes ?rng' ?n 0 = (bias0, shifts0, power0, j1)"
    by (metis prod_cases4)
  have lanes: "initLanes rng ?n k = (bias0, shifts0, power0, k + j1)"
    using initLanes_shift [of rng ?n k 0] lanes' by simp
  have run: "runSimulation h rng profile T dt 0 (st\<lparr>position := k + j1\<rparr>)
      = (runSimulation h ?rng' profile T dt 0 st)
          \<lparr>position := k + position (runSimulation h ?rng' profile T dt 0 st)\<rparr>"
    if "position st = j1" for T dt st
    using runSimulation_shift [where h = h and rng = rng and p = profile and T = T and dt = dt
            and i = 0 and st = st and k = k] that by simp
  define st0 where "st0 =
     \<lparr>currentBER = InitialBER (setDefaults profile req),
      currentEyeMargin = InitialEyeMargin (setDefaults profile req),
      biasVoltages = bias0, lambdaShifts = shifts0, laserPowerAdjust = power0,
      temperatureProfile = [], berProfile = [], eyeMarginProfile = [],
      converged = False, iterations = 0, position = j1\<rparr>"
  have st0: "\<lparr>currentBER = InitialBER (setDefaults profile req),
      currentEyeMargin = InitialEyeMargin (setDefaults profile req),
      biasVoltages = bias0, lambdaShifts = shifts0, laserPowerAdjust = power0,
      temperatureProfile = [], berProfile = [], eyeMarginProfile = [],
      converged = False, iterations = 0, position = k + j1\<rparr> = st0\<lparr>position := k + j1\<rparr>"
    by (simp add: st0_def)
  have pos0: "position st0 = j1"
    by (simp add: st0_def)
  show ?thesis
    unfolding Simulate_def Some option.case Let_def lanes lanes' prod.case st0 run [OF pos0]
    unfolding st0_def [symmetric]
    by simp
qed

text \<open>
  C9, as amended: the response (or error) of \<open>Simulate\<close>, and the number of draws it
  consumes, are determined by the simulator, the request and the numbers that the
  random generator yields from the position it has when the call starts. Two calls
  with identical requests that see identical draws, each counted from its own
  starting position, whether on one generator or on two, return identical responses
  and consume equally many draws.
\<close>

theorem Simulate_determined_by_draws:
  assumes "\<forall>n. rng1 (k1 + n) = rng2 (k2 + n)"
  shows "fst (Simulate h rng1 k1 req) = fst (Simulate h rng2 k2 req) \<and>
         snd (Simulate h rng1 k1 req) + k2 = snd (Simulate h rng2 k2 req) + k1"
proof -
  have "(\<lambda>n. rng1 (k1 + n)) = (\<lambda>n. rng2 (k2 + n))"
    using assms by auto
  with Simulate_shift [of h rng1 k1 req] Simulate_shift [of h rng2 k2 req] show ?thesis
    by simp
qed

theorem Simulate_determined_by_draws_witness:
  "fst (Simulate NewHELIOPASSSimulator steady_source 0 quick_request)
     = fst (Simulate NewHELIOPASSSimulator steady_source 11 quick_request) \<and>
   snd (Simulate NewHELIOPASSSimulator steady_source 0 quick_request) + 11
     = snd (Simulate NewHELIOPASSSimulator steady_source 11 quick_request) + 0 \<and>
   fst (Simulate NewHELIOPASSSimulator two_level_source 11 quick_request)
     = fst (Simulate NewHELIOPASSSimulator (\<lambda>n. 1 / 4) 0 quick_request)"
  using Simulate_determined_by_draws
          [of steady_source 0 steady_source 11 NewHELIOPASSSimulator quick_request]
        Simulate_determined_by_draws
          [of two_level_source 11 "\<lambda>n. 1 / 4" 0 NewHELIOPASSSimulator quick_request]
  by (simp add: steady_source_def two_level_source_def)

text \<open>
  C9, as stated, fails: \<open>Simulate\<close> is not a function of the request alone. With the
  generator yielding 1/2 eleven times and 1/4 afterwards, a first call with
  \<open>quick_request\<close> consumes eleven draws and reports a final BER of 1e-12; the next
  call, with the same request, reports 0.9875e-12.
\<close>

theorem Simulate_not_deterministic:
  "snd (Simulate NewHELIOPASSSimulator two_level_source 0 quick_request) = 11 \<and>
   FinalBER (projr (fst (Simulate NewHELIOPASSSimulator two_level_source 0 quick_request)))
     = 1 / 10 ^ 12 \<and>
   FinalBER (projr (fst (Simulate NewHELIOPASSSimulator two_level_source 11 quick_request)))
     = 79 / 80 * (1 / 10 ^ 12) \<and>
   fst (Simulate NewHELIOPASSSimulator two_level_source 0 quick_request)
     \<noteq> fst (Simulate NewHELIOPASSSimulator two_level_source 11 quick_request)"
proof -
  from quick_request_pass [of two_level_source 0] obtain r1 where
    r1: "Simulate NewHELIOPASSSimulator two_level_source 0 quick_request = (Inr r1, 11)"
        "FinalBER r1 = 1 / 10 ^ 12"
    by (auto simp: two_level_source_def)
  from quick_request_pass [of two_level_source 11] obtain r2 where
    r2: "Simulate NewHELIOPASSSimulator two_level_source 11 quick_request = (Inr r2, 22)"
        "FinalBER r2 = 79 / 80 * (1 / 10 ^ 12)"
    by (auto simp: two_level_source_def)
  have "r1 \<noteq> r2"
    using r1(2) r2(2) by auto
  with r1 r2 show ?thesis
    by simp
qed

lemma iteration_profiles:
  "berProfile (iteration h rng p T dt i st) =
     berProfile st @ [\<lparr>BERPoint.Time = real_of_int i * dt,
                        BER = currentBER (iteration h rng p T dt i st)\<rparr>]"
  "eyeMarginProfile (iteration h rng p T dt i st) =
     eyeMarginProfile st @ [\<lparr>EyeMarginPoint.Time = real_of_int i * dt,
                              EyeMargin = currentEyeMargin (iteration h rng p T dt i st)\<rparr>]"
  by (simp_all add: iteration_def Let_def case_prod_beta)

lemma runSimulation_unfold:
  assumes "i < MaxIterations h"
  shows "runSimulation h rng p T dt i st =
           (if converged (iteration h rng p T dt i st) \<or> \<not> i + 1 < MaxIterations h
            then iteration h rng p T dt i st
            else runSimulation h rng p T dt (i + 1) (iteration h rng p T dt i st))"
proof -
  have "runSimulation h rng p T dt (i + 1) st' = st'" if "\<not> i + 1 < MaxIterations h" for st'
    using that by (simp add: runSimulation.simps [of h rng p T dt "i + 1" st'])
  with assms show ?thesis
    by (simp add: runSimulation.simps [of h rng p T dt i st] Let_def)
qed

lemma runSimulation_report:
  assumes "i < MaxIterations h"
    and "length (berProfile st) = length (eyeMarginProfile st)"
    and "list_all (\<lambda>(b, e). \<not> (BER b \<le> T * 1.1 \<and> 0.7 \<le> EyeMargin e)) (zip (berProfile st) (eyeMarginProfile st))"
  shows "berProfile (runSimulation h rng p T dt i st) \<noteq> [] \<and>
         eyeMarginProfile (runSimulation h rng p T dt i st) \<noteq> [] \<and>
         BER (last (berProfile (runSimulation h rng p T dt i st)))
           = currentBER (runSimulation h rng p T dt i st) \<and>
         EyeMargin (last (eyeMarginProfile (runSimulation h rng p T dt i st)))
           = currentEyeMargin (runSimulation h rng p T dt i st) \<and>
         (converged (runSimulation h rng p T dt i st) \<longleftrightarrow>
            currentBER (runSimulation h rng p T dt i st) \<le> T * 1.1 \<and>
            0.7 \<le> currentEyeMargin (runSimulation h rng p T dt i st)) \<and>
         (\<not> converged (runSimulation h rng p T dt i st) \<longrightarrow>
            iterations (runSimulation h rng p T dt i st) = iterations st + (MaxIterations h - i)) \<and>
         list_all (\<lambda>(b, e). \<not> (BER b \<le> T * 1.1 \<and> 0.7 \<le> EyeMargin e))
           (zip (butlast (berProfile (runSimulation h rng p T dt i st)))
                (butlast (eyeMarginProfile (runSimulation h rng p T dt i st))))"
  using assms
proof (induction h rng p T dt i st rule: runSimulation.induct)
  case (1 h rng p T dt i st)
  let ?st' = "iteration h rng p T dt i st"
  have len': "length (berProfile ?st') = length (eyeMarginProfile ?st')"
    using "1.prems"(2) by (simp add: iteration_profiles)
  have its': "iterations ?st' = iterations st + 1"
    by (rule iteration_iterations)
  have here: "berProfile ?st' \<noteq> [] \<and> eyeMarginProfile ?st' \<noteq> [] \<and>
      BER (last (berProfile ?st')) = currentBER ?st' \<and>
      EyeMargin (last (eyeMarginProfile ?st')) = currentEyeMargin ?st' \<and>
      (converged ?st' \<longleftrightarrow> currentBER ?st' \<le> T * 1.1 \<and> 0.7 \<le> currentEyeMargin ?st') \<and>
      list_all (\<lambda>(b, e). \<not> (BER b \<le> T * 1.1 \<and> 0.7 \<le> EyeMargin e)) (zip (butlast (berProfile ?st')) (butlast (eyeMarginProfile ?st')))"
    using "1.prems"(3) iteration_converged [of h rng p T dt i st]
    by (simp add: iteration_profiles)
  show ?case
  proof (cases "converged ?st' \<or> \<not> i + 1 < MaxIterations h")
    case True
    then have stop: "runSimulation h rng p T dt i st = ?st'"
      using runSimulation_unfold [OF "1.prems"(1), of rng p T dt st] by simp
    from True "1.prems"(1) have "\<not> converged ?st' \<longrightarrow> MaxIterations h - i = 1"
      by auto
    with here its' show ?thesis
      unfolding stop by simp
  next
    case False
    then have go: "runSimulation h rng p T dt i st = runSimulation h rng p T dt (i + 1) ?st'"
      using runSimulation_unfold [OF "1.prems"(1), of rng p T dt st] by simp
    from False have "\<not> (currentBER ?st' \<le> T * 1.1 \<and> 0.7 \<le> currentEyeMargin ?st')"
      using iteration_converged [of h rng p T dt i st] by simp
    with "1.prems"(2,3) have all': "list_all (\<lambda>(b, e). \<not> (BER b \<le> T * 1.1 \<and> 0.7 \<le> EyeMargin e)) (zip (berProfile ?st') (eyeMarginProfile ?st'))"
      by (simp add: iteration_profiles)
    from False "1.prems"(1) have "i < MaxIterations h" "\<not> converged ?st'" "i + 1 < MaxIterations h"
      by simp_all
    from "1.IH" [OF this(1) refl this(2) this(3) len' all'] its' show ?thesis
      unfolding go by simp
  qed
qed


text \<open>
  C4, as amended: in every response that \<open>Simulate\<close> returns, \<open>converged\<close> is true
  exactly when the final BER is at most 1.1 times the target and the final eye margin
  is at least 0.7, both at once; the status is \<open>converged\<close> then and
  \<open>partial_convergence\<close> otherwise; a response that is not converged has run all
  50 iterations; the final BER and eye margin are the last entries of the two
  profiles, that is the values of the last iteration; and every earlier iteration
  failed the check, so the loop went on whenever at most one condition held.
\<close>

theorem convergence_report:
  assumes "Simulate NewHELIOPASSSimulator rng k req = (Inr resp, k')"
  shows "(Converged resp \<longleftrightarrow>
            FinalBER resp \<le> TargetBER req * 1.1 \<and> 0.7 \<le> FinalEyeMargin resp) \<and>
         Status resp = (if Converged resp then ''converged'' else ''partial_convergence'') \<and>
         (\<not> Converged resp \<longrightarrow> Iterations resp = 50) \<and>
         BERProfile resp \<noteq> [] \<and> FinalBER resp = BER (last (BERProfile resp)) \<and>
         EyeMarginProfile resp \<noteq> [] \<and>
         FinalEyeMargin resp = EyeMargin (last (EyeMarginProfile resp)) \<and>
         list_all (\<lambda>(b, e). \<not> (BER b \<le> TargetBER req * 1.1 \<and> 0.7 \<le> EyeMargin e))
           (zip (butlast (BERProfile resp)) (butlast (EyeMarginProfile resp)))"
proof -
  let ?h = NewHELIOPASSSimulator
  have max: "0 < MaxIterations ?h" "MaxIterations ?h - 0 = 50"
    by (simp_all add: NewHELIOPASSSimulator_def)
  from Simulate_response [OF assms] obtain pr d st0 st where
    st0: "berProfile st0 = []" "eyeMarginProfile st0 = []" "iterations st0 = 0" and
    st: "st = runSimulation ?h rng pr (TargetBER req) d 0 st0" and
    resp: "Status resp = (if \<not> converged st then ''partial_convergence'' else ''converged'')"
      "Converged resp = converged st" "FinalBER resp = currentBER st"
      "FinalEyeMargin resp = currentEyeMargin st" "Iterations resp = iterations st"
      "BERProfile resp = berProfile st" "EyeMarginProfile resp = eyeMarginProfile st"
    by blast
  from runSimulation_report [OF max(1), of st0 "TargetBER req" rng pr d] st0 max(2)
  show ?thesis
    unfolding resp st by simp
qed

theorem convergence_report_witness:
  "\<exists>resp. Simulate NewHELIOPASSSimulator two_level_source 0 quick_request = (Inr resp, 11) \<and>
     Converged resp \<and> Status resp = ''converged'' \<and>
     FinalBER resp \<le> TargetBER quick_request * 1.1 \<and> 0.7 \<le> FinalEyeMargin resp \<and>
     FinalBER resp = BER (last (BERProfile resp))"
proof -
  from quick_request_pass [of two_level_source 0] obtain resp where
    sim: "Simulate NewHELIOPASSSimulator two_level_source 0 quick_request = (Inr resp, 11)" and
    conv: "Converged resp"
    by (auto simp: two_level_source_def)
  from convergence_report [OF sim] conv sim show ?thesis
    by auto
qed


lemma passes_snoc:
  "passes h rng p T dt i (Suc n) st =
     iteration h rng p T dt (i + int n) (passes h rng p T dt i n st)"
proof (induction n arbitrary: i st)
  case 0
  show ?case by simp
next
  case (Suc n)
  have "passes h rng p T dt i (Suc (Suc n)) st
          = passes h rng p T dt (i + 1) (Suc n) (iteration h rng p T dt i st)"
    by simp
  also have "\<dots> = iteration h rng p T dt (i + 1 + int n)
                      (passes h rng p T dt (i + 1) n (iteration h rng p T dt i st))"
    by (rule Suc.IH)
  also have "i + 1 + int n = i + int (Suc n)"
    by simp
  also have "passes h rng p T dt (i + 1) n (iteration h rng p T dt i st)
               = passes h rng p T dt i (Suc n) st"
    by simp
  finally show ?case .
qed

lemma never_converged:
  assumes "T \<le> 0"
  shows "\<not> converged (iteration h rng p T dt i st)"
proof -
  have "T * 1.1 \<le> 0"
    using assms by (simp add: mult_le_0_iff)
  moreover have "(0::real) < 1 / 10 ^ 15"
    by simp
  ultimately have "T * 1.1 < currentBER (iteration h rng p T dt i st)"
    using iteration_BER_floor [of h rng p T dt i st] by linarith
  then show ?thesis
    by (simp add: iteration_converged)
qed

lemma runSimulation_passes:
  assumes "T \<le> 0"
  shows "runSimulation h rng p T dt i st = passes h rng p T dt i (nat (MaxIterations h - i)) st"
  using assms
proof (induction h rng p T dt i st rule: runSimulation.induct)
  case (1 h rng p T dt i st)
  show ?case
  proof (cases "i < MaxIterations h")
    case True
    let ?st' = "iteration h rng p T dt i st"
    have nc: "\<not> converged ?st'"
      by (rule never_converged) (rule "1.prems")
    have "runSimulation h rng p T dt i st = runSimulation h rng p T dt (i + 1) ?st'"
      using True nc by (simp add: runSimulation.simps [of h rng p T dt i st] Let_def)
    also have "\<dots> = passes h rng p T dt (i + 1) (nat (MaxIterations h - (i + 1))) ?st'"
      by (rule "1.IH" [OF True refl nc "1.prems"])
    also have "\<dots> = passes h rng p T dt i (Suc (nat (MaxIterations h - (i + 1)))) st"
      by simp
    also have "Suc (nat (MaxIterations h - (i + 1))) = nat (MaxIterations h - i)"
      using True by simp
    finally show ?thesis .
  next
    case False
    then show ?thesis
      by (simp add: runSimulation.simps [of h rng p T dt i st])
  qed
qed

lemma passes_shape:
  "length (biasVoltages (passes h rng p T dt i n st)) = length (biasVoltages st) \<and>
   length (lambdaShifts (passes h rng p T dt i n st)) = length (lambdaShifts st) \<and>
   length (laserPowerAdjust (passes h rng p T dt i n st)) = length (laserPowerAdjust st) \<and>
   length (berProfile (passes h rng p T dt i n st)) = length (berProfile st) + n \<and>
   iterations (passes h rng p T dt i n st) = iterations st + int n \<and>
   position (passes h rng p T dt i n st) =
     position st + n * (5 + length (biasVoltages st) + length (lambdaShifts st)
                          + length (laserPowerAdjust st))"
  by (induction n arbitrary: i st) (simp_all add: iteration_lengths iteration_profiles iteration_iterations algebra_simps)


lemma exp_minus_small:
  fixes x :: real
  assumes "9 \<le> x"
  shows "exp (- x) \<le> 1 / 10"
proof -
  have "10 \<le> 1 + x"
    using assms by simp
  also have "\<dots> \<le> exp x"
    by (rule exp_ge_add_one_self)
  finally have "inverse (exp x) \<le> inverse 10"
    by (intro le_imp_inverse_le) simp_all
  then show ?thesis
    by (simp add: exp_minus)
qed

lemma GetAmbientProfiles_field_noise_high:
  "GetAmbientProfiles h ''field_noise_high'' =
     Some \<lparr>Name = ''Field High Noise'', Temperature = 30.0, Humidity = 80.0,
           VibrationRMS = 5.0, EMINoise = -60.0, DriftRate = 0.1,
           StabilityClass = ''fair'', NoiseLevel = 0.2\<rparr>"
  by (simp add: GetAmbientProfiles_def)

lemma stalled_run:
  "\<exists>resp. Simulate NewHELIOPASSSimulator spike_source 0 stalled_request = (Inr resp, 403) \<and>
     \<not> Converged resp \<and> Status resp = ''partial_convergence'' \<and> Iterations resp = 50 \<and>
     BER (BERProfile resp ! 48) = 1 / 10 ^ 15 \<and> 1 / 10 ^ 15 < FinalBER resp"
proof -
  let ?h = NewHELIOPASSSimulator
  define p where "p = \<lparr>Name = ''Field High Noise'', Temperature = 30.0, Humidity = 80.0,
           VibrationRMS = 5.0, EMINoise = -60.0, DriftRate = 0.1,
           StabilityClass = ''fair'', NoiseLevel = 0.2\<rparr>"
  have prof: "GetAmbientProfiles ?h (AmbientProfile stalled_request) = Some p"
    unfolding p_def by (simp add: stalled_request_def GetAmbientProfiles_field_noise_high)
  have nl: "NoiseLevel p = 1 / 5"
    by (simp add: p_def)
  have rate: "ConvergenceRate ?h = 4 / 5"
    by (simp add: NewHELIOPASSSimulator_def)
  have lanes: "LambdaCount (setDefaults p stalled_request) = 1"
    by (simp add: setDefaults_fields stalled_request_def)
  obtain bias0 shifts0 power0 k1 where
    init: "initLanes spike_source (nat (LambdaCount (setDefaults p stalled_request))) 0
             = (bias0, shifts0, power0, k1)"
    by (metis prod_cases4)
  from initLanes_length [OF init] have
    len: "length bias0 = 1" "length shifts0 = 1" "length power0 = 1" and k1: "k1 = 3"
    by (simp_all add: lanes)
  define st0 where "st0 =
     \<lparr>currentBER = InitialBER (setDefaults p stalled_request),
      currentEyeMargin = InitialEyeMargin (setDefaults p stalled_request),
      biasVoltages = bias0, lambdaShifts = shifts0, laserPowerAdjust = power0,
      temperatureProfile = [], berProfile = [], eyeMarginProfile = [],
      converged = False, iterations = 0, position = k1\<rparr>"
  define dt where
    "dt = real_of_int (Duration (setDefaults p stalled_request)) / real_of_int (MaxIterations ?h)"
  have dt: "dt = 1 / 50"
    by (simp add: dt_def setDefaults_fields stalled_request_def NewHELIOPASSSimulator_def)
  have T: "TargetBER stalled_request = 0"
    by (simp add: stalled_request_def)
  define run where "run n = passes ?h spike_source p 0 dt 0 n st0" for n
  have step: "run (Suc n) = iteration ?h spike_source p 0 dt (int n) (run n)" for n
    unfolding run_def using passes_snoc [of ?h spike_source p 0 dt 0 n st0] by simp
  have shape: "length (berProfile (run n)) = n" "iterations (run n) = int n"
    "position (run n) = 3 + n * 8" for n
    unfolding run_def using passes_shape [of ?h spike_source p 0 dt 0 n st0]
    by (simp_all add: st0_def len k1)
  define st where "st = runSimulation ?h spike_source p (TargetBER stalled_request) dt 0 st0"
  have st: "st = run 50"
    unfolding st_def T run_def
    by (simp add: runSimulation_passes NewHELIOPASSSimulator_def)
  have r48: "run 48 = iteration ?h spike_source p 0 dt 47 (run 47)"
    using step [of 47] by simp
  have r49: "run 49 = iteration ?h spike_source p 0 dt 48 (run 48)"
    using step [of 48] by simp
  have r50: "run 50 = iteration ?h spike_source p 0 dt 49 (run 49)"
    using step [of 49] by simp
  define c48 where "c48 = currentBER (run 48)"
  have c48: "0 < c48"
  proof -
    have "(0::real) < 1 / 10 ^ 15" by simp
    also have "\<dots> \<le> c48"
      unfolding c48_def r48 by (rule iteration_BER_floor)
    finally show ?thesis .
  qed
  define E48 where "E48 = exp (- (192 / 5 :: real))"
  define S48 where "S48 = sin (12 / 25 :: real)"
  have E48: "E48 \<le> 1 / 10"
    unfolding E48_def by (rule exp_minus_small) simp
  have S48: "S48 \<le> 1"
    unfolding S48_def by (rule sin_le_one)
  define A48 where "A48 = c48 * (E48 - 1 / 10)"
  define B48 where "B48 = (1 / 5 * (1 / 10 ^ 12)) * (S48 / 2 - 1 / 2)"
  have b49: "currentBER (run 49) = max (A48 + B48) (1 / 10 ^ 15)"
    unfolding r49 iteration_currentBER
    by (rule arg_cong2 [where f = max])
       (simp_all add: shape nl rate dt c48_def E48_def S48_def A48_def B48_def
          spike_source_def field_simps)
  have "A48 \<le> 0"
    unfolding A48_def using c48 E48 by (simp add: mult_le_0_iff)
  moreover have "B48 \<le> 0"
    unfolding B48_def using S48 by (simp add: mult_le_0_iff)
  moreover have "(0::real) \<le> 1 / 10 ^ 15"
    by simp
  ultimately have "A48 + B48 \<le> 1 / 10 ^ 15"
    by linarith
  with b49 have c49: "currentBER (run 49) = 1 / 10 ^ 15"
    by (simp only: max_absorb2)
  define E49 where "E49 = exp (- (196 / 5 :: real))"
  define S49 where "S49 = sin (49 / 100 :: real)"
  have E49: "0 < E49"
    unfolding E49_def by simp
  have S49: "0 \<le> S49"
    unfolding S49_def using pi_ge_two by (intro sin_ge_zero) simp_all
  define A49 where "A49 = (1 / 10 ^ 15) * (E49 - 1 / 10)"
  define B49 where "B49 = (1 / 5 * (1 / 10 ^ 12)) * (S49 / 2 + 1 / 4)"
  have b50: "currentBER (run 50) = max (A49 + B49) (1 / 10 ^ 15)"
    unfolding r50 iteration_currentBER c49
    by (rule arg_cong2 [where f = max])
       (simp_all add: shape nl rate dt E49_def S49_def A49_def B49_def
          spike_source_def field_simps)
  have "- (1 / 10 ^ 16) \<le> A49"
  proof -
    have "(1 / 10 ^ 15) * (- (1 / 10)) \<le> (1 / 10 ^ 15) * (E49 - 1 / 10 :: real)"
      using E49 by (intro mult_left_mono) simp_all
    then show ?thesis
      by (simp add: A49_def)
  qed
  moreover have "1 / (2 * 10 ^ 13) \<le> B49"
  proof -
    have "(1 / 5 * (1 / 10 ^ 12)) * (1 / 4) \<le> (1 / 5 * (1 / 10 ^ 12)) * (S49 / 2 + 1 / 4 :: real)"
      using S49 by (intro mult_left_mono) simp_all
    then show ?thesis
      by (simp add: B49_def)
  qed
  moreover have "1 / 10 ^ 15 < 1 / (2 * 10 ^ 13) - 1 / (10 ^ 16 :: real)"
    by simp
  ultimately have "1 / 10 ^ 15 < A49 + B49"
    by linarith
  with b50 have c50: "1 / 10 ^ 15 < currentBER (run 50)"
    by (simp only: less_max_iff_disj) simp
  have prof50: "berProfile (run 50) ! 48 =
      \<lparr>BERPoint.Time = real_of_int 48 * dt, BER = currentBER (run 49)\<rparr>"
    unfolding r50 iteration_profiles
    by (subst r49, subst iteration_profiles) (simp add: shape nth_append r49 [symmetric])
  have nc: "\<not> converged (run 50)"
    unfolding r50 by (rule never_converged) simp
  from Simulate_fields [OF prof _ init, of st] obtain resp where
    "Simulate ?h spike_source 0 stalled_request = (Inr resp, position st)"
    "Converged resp = converged st"
    "Status resp = (if \<not> converged st then ''partial_convergence'' else ''converged'')"
    "FinalBER resp = currentBER st" "Iterations resp = iterations st"
    "BERProfile resp = berProfile st"
    unfolding st_def st0_def dt_def by (auto simp: lanes makeslicePanics_def maxAlloc_def)
  then show ?thesis
    unfolding st using nc c50 prof50 c49 by (simp add: shape)
qed


text \<open>
  C4, as stated, fails in its last part: the values reported after the loop has run out
  are those of the last pass, not the best ones of the run. For \<open>stalled_request\<close>
  and the generator output \<open>spike_source\<close> the run takes all 50 passes without
  converging; pass 49 (index 48 of the BER profile) reaches the floor 1e-15, and the
  final BER, left by pass 50, is larger.
\<close>

theorem final_values_not_best:
  "\<not> isl (fst (Simulate NewHELIOPASSSimulator spike_source 0 stalled_request)) \<and>
   \<not> Converged (projr (fst (Simulate NewHELIOPASSSimulator spike_source 0 stalled_request))) \<and>
   Status (projr (fst (Simulate NewHELIOPASSSimulator spike_source 0 stalled_request)))
     = ''partial_convergence'' \<and>
   Iterations (projr (fst (Simulate NewHELIOPASSSimulator spike_source 0 stalled_request))) = 50 \<and>
   BER (BERProfile (projr (fst (Simulate NewHELIOPASSSimulator spike_source 0 stalled_request))) ! 48)
     = 1 / 10 ^ 15 \<and>
   BER (BERProfile (projr (fst (Simulate NewHELIOPASSSimulator spike_source 0 stalled_request))) ! 48)
     < FinalBER (projr (fst (Simulate NewHELIOPASSSimulator spike_source 0 stalled_request)))"
proof -
  from stalled_run obtain resp where
    "Simulate NewHELIOPASSSimulator spike_source 0 stalled_request = (Inr resp, 403)"
    "\<not> Converged resp" "Status resp = ''partial_convergence''" "Iterations resp = 50"
    "BER (BERProfile resp ! 48) = 1 / 10 ^ 15" "1 / 10 ^ 15 < FinalBER resp"
    by blast
  then show ?thesis
    by simp
qed

section \<open>Properties of the memqosd skeleton\<close>

text \<open>
  C2, as amended: the skeleton has no tier capacity and never answers
  CAPACITY\_EXCEEDED. Whatever the size and the tier of a request whose body decodes,
  \<open>ffmAlloc\<close> answers 200 with the fixed reply (handle \<open>ffm-9c2e\<close>); so an allocation
  of exactly the capacity of a tier succeeds, and so does any larger one. The only
  failure is 400 for a body that does not decode.
\<close>

theorem ffmAlloc_ignores_size:
  "ffmAlloc (Inr (req\<lparr>Bytes := b, LatencyClass := tier\<rparr>)) = granted \<and>
   StatusCode (ffmAlloc (Inr (req\<lparr>Bytes := b, LatencyClass := tier\<rparr>))) = 200 \<and>
   StatusCode (ffmAlloc (Inl err)) = 400"
  by (simp add: ffmAlloc_def granted_def)

text \<open>
  C2, as stated, fails: an allocation of one byte more than 256 GiB (the capacity of
  the device in the repository's documentation), and one of the largest \<open>uint64\<close>,
  are both granted, so no capacity, however it is chosen, makes the request of
  capacity + 1 bytes fail.
\<close>

theorem oversized_allocation_granted:
  "serve ''/v1/ffm/alloc'' (Inr (scenario_A_first\<lparr>Bytes := 274877906944 + 1\<rparr>)) = granted \<and>
   serve ''/v1/ffm/alloc'' (Inr (scenario_A_first\<lparr>Bytes := 18446744073709551615\<rparr>)) = granted \<and>
   StatusCode granted = 200"
  by (simp add: serve_def ffmAlloc_def granted_def)

text \<open>
  C1, as amended: the skeleton keeps no ledger of allocations and has no bandwidth
  ceiling. The answer of the route \<open>/v1/ffm/alloc\<close> to a request whose body decodes
  is 200 with the fixed reply, the same for every request: it depends neither on the
  tier or the bandwidth floor asked for nor on what was granted before.
\<close>

theorem ffmAlloc_no_admission_control:
  "serve ''/v1/ffm/alloc'' (Inr req) = serve ''/v1/ffm/alloc'' (Inr req') \<and>
   StatusCode (serve ''/v1/ffm/alloc'' (Inr req)) = 200 \<and>
   Body (serve ''/v1/ffm/alloc'' (Inr req)) =
     ReplyJSON \<lparr>Handle = ''ffm-9c2e'', FDs = [''/proc/self/fd/37''], PolicyLeaseTTLsec = 3600\<rparr>"
  by (simp add: serve_def ffmAlloc_def)

text \<open>
  C1, as stated, fails on Scenario A: after the first allocation in T0 with a floor of
  500 GB/s is granted, the second one with a floor of 600 GB/s is granted as well, and
  the floors granted in T0 add up to 1100 GB/s.
\<close>

theorem scenario_A_second_granted:
  "serve ''/v1/ffm/alloc'' (Inr scenario_A_first) = granted \<and>
   serve ''/v1/ffm/alloc'' (Inr scenario_A_second) = granted \<and>
   StatusCode granted = 200 \<and>
   LatencyClass scenario_A_first = LatencyClass scenario_A_second \<and>
   unat (BandwidthFloorGBs scenario_A_first) + unat (BandwidthFloorGBs scenario_A_second) = 1100"
  by (simp add: serve_def ffmAlloc_def granted_def scenario_A_first_def scenario_A_second_def)

text \<open>
  C7, as amended: the skeleton has no release operation. \<open>main\<close> registers the single
  route \<open>/v1/ffm/alloc\<close>, so a request to any other path that the mux passes on to a
  handler (a path that is its own cleaned form) is answered ``404 page not found'',
  the first time as well as any later time; the daemon holds no capacity or bandwidth
  that a release could free.
\<close>

theorem no_release_route:
  assumes "path \<noteq> ''/v1/ffm/alloc''" and "cleanPath path = path"
  shows "serve path decoded =
           \<lparr>StatusCode = 404, ContentType = ''text/plain; charset=utf-8'',
            Body = ErrorText ''404 page not found''\<rparr>"
  using assms by (simp add: serve_def)

theorem no_release_route_witness:
  "''/v1/ffm/ffm-9c2e/release'' \<noteq> ''/v1/ffm/alloc'' \<and>
   cleanPath ''/v1/ffm/ffm-9c2e/release'' = ''/v1/ffm/ffm-9c2e/release'' \<and>
   serve ''/v1/ffm/ffm-9c2e/release'' (Inl ''EOF'') =
     \<lparr>StatusCode = 404, ContentType = ''text/plain; charset=utf-8'',
      Body = ErrorText ''404 page not found''\<rparr>"
proof -
  have neq: "''/v1/ffm/ffm-9c2e/release'' \<noteq> ''/v1/ffm/alloc''"
    by simp
  have clean: "cleanPath ''/v1/ffm/ffm-9c2e/release'' = ''/v1/ffm/ffm-9c2e/release''"
    by (simp add: cleanPath_def)
  from no_release_route [OF neq clean, of "Inl ''EOF''"] neq clean show ?thesis
    by simp
qed

lemma cleanPath_examples:
  "cleanPath ''/v1/ffm/alloc'' = ''/v1/ffm/alloc''"
  "cleanPath ''/v1/ffm/ffm-9c2e'' = ''/v1/ffm/ffm-9c2e''"
  "cleanPath ''/v1/ffm/release'' = ''/v1/ffm/release''"
  "cleanPath ''/v1/ffm/ffm-9c2e/release'' = ''/v1/ffm/ffm-9c2e/release''"
  "cleanPath ''/v1/ffm//alloc'' = ''/v1/ffm/alloc''"
  "cleanPath ''/v1/ffm/x/../alloc'' = ''/v1/ffm/alloc''"
  by (simp_all add: cleanPath_def)

text \<open>
  C7, as stated, fails: after the handle \<open>ffm-9c2e\<close> has been granted, already the
  first request to release it is answered 404, not success, on each of the paths a
  release could plausibly use (all three are their own cleaned form, see
  \<open>cleanPath_examples\<close>).
\<close>

theorem first_release_not_found:
  "Body (serve ''/v1/ffm/alloc'' (Inr scenario_A_first)) =
     ReplyJSON \<lparr>Handle = ''ffm-9c2e'', FDs = [''/proc/self/fd/37''], PolicyLeaseTTLsec = 3600\<rparr> \<and>
   StatusCode (serve ''/v1/ffm/ffm-9c2e'' (Inl ''EOF'')) = 404 \<and>
   StatusCode (serve ''/v1/ffm/ffm-9c2e/release'' (Inl ''EOF'')) = 404 \<and>
   StatusCode (serve ''/v1/ffm/release'' (Inl ''EOF'')) = 404"
  by (simp add: serve_def ffmAlloc_def)

end
